theory Spec2Isabelle
  imports Complex_Main
begin

section \<open>JavaScript numbers\<close>

text \<open>
  Every \<open>number\<close> of the program is a \<open>jsnum\<close>: a real value, one of the two infinities,
  or NaN. Arithmetic on finite values is exact (rounding, overflow to infinity and the
  sign of zero are not modelled); the special values follow IEEE 754 as JavaScript does:
  NaN is absorbing, every comparison with NaN is false, \<open>0 / 0\<close> is NaN and \<open>a / 0\<close> is an
  infinity for \<open>a \<noteq> 0\<close>.
\<close>

datatype jsnum = Val real | PInf | NInf | NaN

fun jneg :: "jsnum \<Rightarrow> jsnum" where
  "jneg (Val a) = Val (- a)"
| "jneg PInf = NInf"
| "jneg NInf = PInf"
| "jneg NaN = NaN"

fun jadd :: "jsnum \<Rightarrow> jsnum \<Rightarrow> jsnum" where
  "jadd (Val a) (Val b) = Val (a + b)"
| "jadd NaN _ = NaN"
| "jadd _ NaN = NaN"
| "jadd PInf NInf = NaN"
| "jadd NInf PInf = NaN"
| "jadd PInf _ = PInf"
| "jadd _ PInf = PInf"
| "jadd NInf _ = NInf"
| "jadd _ NInf = NInf"

definition jsub :: "jsnum \<Rightarrow> jsnum \<Rightarrow> jsnum" where
  "jsub a b = jadd a (jneg b)"

text \<open>The sign of a product or quotient with an infinite operand.\<close>

fun jsign :: "jsnum \<Rightarrow> real" where
  "jsign (Val a) = sgn a"
| "jsign PInf = 1"
| "jsign NInf = - 1"
| "jsign NaN = 0"

definition jinf :: "real \<Rightarrow> jsnum" where
  "jinf s = (if s = 0 then NaN else if 0 < s then PInf else NInf)"

fun jmul :: "jsnum \<Rightarrow> jsnum \<Rightarrow> jsnum" where
  "jmul (Val a) (Val b) = Val (a * b)"
| "jmul NaN _ = NaN"
| "jmul _ NaN = NaN"
| "jmul a b = jinf (jsign a * jsign b)"

fun jdiv :: "jsnum \<Rightarrow> jsnum \<Rightarrow> jsnum" where
  "jdiv (Val a) (Val b) = (if b = 0 then jinf (sgn a) else Val (a / b))"
| "jdiv NaN _ = NaN"
| "jdiv _ NaN = NaN"
| "jdiv (Val a) _ = Val 0"
| "jdiv a (Val b) = jinf (jsign a * (if b < 0 then - 1 else 1))"
| "jdiv _ _ = NaN"

fun jsqrt :: "jsnum \<Rightarrow> jsnum" where
  "jsqrt (Val a) = (if a < 0 then NaN else Val (sqrt a))"
| "jsqrt PInf = PInf"
| "jsqrt NInf = NaN"
| "jsqrt NaN = NaN"

fun jabs :: "jsnum \<Rightarrow> jsnum" where
  "jabs (Val a) = Val \<bar>a\<bar>"
| "jabs PInf = PInf"
| "jabs NInf = PInf"
| "jabs NaN = NaN"

fun jlt :: "jsnum \<Rightarrow> jsnum \<Rightarrow> bool" where
  "jlt (Val a) (Val b) = (a < b)"
| "jlt NaN _ = False"
| "jlt _ NaN = False"
| "jlt _ NInf = False"
| "jlt PInf _ = False"
| "jlt _ _ = True"

fun jle :: "jsnum \<Rightarrow> jsnum \<Rightarrow> bool" where
  "jle (Val a) (Val b) = (a \<le> b)"
| "jle NaN _ = False"
| "jle _ NaN = False"
| "jle NInf _ = True"
| "jle _ PInf = True"
| "jle _ _ = False"

text \<open>\<open>a > b\<close> and \<open>a >= b\<close>.\<close>

definition jgt :: "jsnum \<Rightarrow> jsnum \<Rightarrow> bool" where
  "jgt a b = jlt b a"

definition jge :: "jsnum \<Rightarrow> jsnum \<Rightarrow> bool" where
  "jge a b = jle b a"

text \<open>\<open>a ** 2\<close>.\<close>

definition jsquare :: "jsnum \<Rightarrow> jsnum" where
  "jsquare a = jmul a a"

fun isFinite :: "jsnum \<Rightarrow> bool" where
  "isFinite (Val a) = True"
| "isFinite _ = False"

section \<open>constants.ts\<close>

definition GAME_WIDTH :: real where "GAME_WIDTH = 800"
definition GAME_HEIGHT :: real where "GAME_HEIGHT = 600"
definition ROCKET_SPEED_BASE :: real where "ROCKET_SPEED_BASE = 0.0007"
definition PLAYER_MISSILE_SPEED :: real where "PLAYER_MISSILE_SPEED = 0.025"
definition EXPLOSION_MAX_RADIUS :: real where "EXPLOSION_MAX_RADIUS = 55"
definition EXPLOSION_GROWTH_SPEED :: real where "EXPLOSION_GROWTH_SPEED = 0.06"
definition EXPLOSION_DECAY_SPEED :: real where "EXPLOSION_DECAY_SPEED = 0.015"
definition SCORE_PER_ROCKET :: real where "SCORE_PER_ROCKET = 20"
definition WIN_SCORE :: real where "WIN_SCORE = 1000"
definition CITY_COUNT :: nat where "CITY_COUNT = 6"

text \<open>\<open>BATTERY_CONFIGS\<close>: the pairs \<open>(x, maxMissiles)\<close>.\<close>

definition BATTERY_CONFIGS :: "(real \<times> real) list" where
  "BATTERY_CONFIGS = [(40, 30), (400, 60), (760, 30)]"

section \<open>The data model (types.ts)\<close>

text \<open>
  The interfaces as records; \<open>extends\<close> is record extension. \<open>PlayerMissile\<close> repeats the
  fields of \<open>Rocket\<close> and \<open>Battery\<close> those of \<open>City\<close>, so each is written as the extension
  it structurally is. The \<open>id\<close> strings are left out: those of rockets, missiles and
  explosions are built from \<open>Math.random()\<close>, and the simulation never reads any of them.
\<close>

record Point =
  x :: jsnum
  y :: jsnum

record Entity =
  pos :: Point

record Rocket = Entity +
  start :: Point
  target :: Point
  progress :: jsnum
  speed :: jsnum

record PlayerMissile = Rocket +
  originBatteryIndex :: int
  isGravityBomb :: "bool option"

record Explosion = Entity +
  radius :: jsnum
  maxRadius :: jsnum
  life :: jsnum
  isExpanding :: bool

record City = Entity +
  isDestroyed :: bool

record Battery = City +
  missiles :: jsnum
  maxMissiles :: jsnum

datatype GameStatus = START | PLAYING | WON | LOST

text \<open>
  City and battery objects are mutated in place (\<open>c.isDestroyed = true\<close>) and are shared
  between the arrays of successive states and the module constant \<open>INITIAL_STATE\<close>, so
  they live in a store and the state's arrays hold their addresses. Rockets, missiles
  and explosions are reachable from the current state's arrays only, so their in-place
  updates are functional updates of the list elements.
\<close>

type_synonym addr = nat

record GameState =
  score :: jsnum
  status :: GameStatus
  cities :: "addr list"
  batteries :: "addr list"
  rockets :: "Rocket list"
  playerMissiles :: "PlayerMissile list"
  explosions :: "Explosion list"
  level :: jsnum

record World =
  cityStore :: "City list"
  batteryStore :: "Battery list"
  gameState :: GameState

section \<open>App.tsx: the initial state and the level controller\<close>

definition initialCity :: "nat \<Rightarrow> City" where
  "initialCity i =
     \<lparr>pos = \<lparr>x = Val (120 + real i * 110 + (if 2 < i then 40 else 0)), y = Val (GAME_HEIGHT - 20)\<rparr>,
      isDestroyed = False\<rparr>"

definition initialBattery :: "real \<times> real \<Rightarrow> Battery" where
  "initialBattery config =
     \<lparr>pos = \<lparr>x = Val (fst config), y = Val (GAME_HEIGHT - 30)\<rparr>,
      isDestroyed = False, missiles = Val (snd config), maxMissiles = Val (snd config)\<rparr>"

definition INITIAL_STATE :: GameState where
  "INITIAL_STATE =
     \<lparr>score = Val 0, status = START,
      cities = [0 ..< CITY_COUNT],
      batteries = [0 ..< length BATTERY_CONFIGS],
      rockets = [], playerMissiles = [], explosions = [],
      level = Val 50\<rparr>"

text \<open>The world when the module is loaded and the component first rendered.\<close>

definition initialWorld :: World where
  "initialWorld =
     \<lparr>cityStore = map initialCity [0 ..< CITY_COUNT],
      batteryStore = map initialBattery BATTERY_CONFIGS,
      gameState = INITIAL_STATE\<rparr>"

definition startGame :: "World \<Rightarrow> World" where
  "startGame w = w\<lparr>gameState := INITIAL_STATE\<lparr>status := PLAYING\<rparr>\<rparr>"

text \<open>\<open>nextLevel\<close> maps every battery to a fresh object, allocated at the end of the store.\<close>

definition nextLevel :: "World \<Rightarrow> World" where
  "nextLevel w =
     (let prev = gameState w;
          fresh = map (\<lambda>a. (batteryStore w ! a)\<lparr>isDestroyed := False,
                               missiles := maxMissiles (batteryStore w ! a)\<rparr>) (batteries prev);
          n = length (batteryStore w)
      in w\<lparr>batteryStore := batteryStore w @ fresh,
           gameState := prev\<lparr>status := PLAYING,
                              level := jadd (level prev) (Val 1),
                              rockets := [], playerMissiles := [], explosions := [],
                              batteries := [n ..< n + length fresh]\<rparr>\<rparr>)"

section \<open>App.tsx: command intake\<close>

text \<open>
  The handlers read \<open>gameState\<close>, the state of the last render, and write through the
  updater's \<open>prev\<close>. Commands and ticks are applied one at a time, so both are the state
  of the world the function is applied to.

  \<open>handleCanvasClick\<close> after the translation of the event to logical coordinates, which
  belongs to the presentation layer: \<open>button\<close> is the event's mouse button when it has one,
  \<open>cx\<close> and \<open>cy\<close> are the logical coordinates \<open>x\<close> and \<open>y\<close> of the click.
\<close>

text \<open>
  The \<open>forEach\<close> over the batteries that looks for the closest alive one: \<open>i\<close> is the index
  of the head of the remaining array, the pair is \<open>(bestBatteryIndex, minDist)\<close>.
\<close>

fun closestBattery ::
  "jsnum \<Rightarrow> Battery list \<Rightarrow> addr list \<Rightarrow> int \<Rightarrow> int \<times> jsnum \<Rightarrow> int \<times> jsnum" where
  "closestBattery cx store [] i acc = acc"
| "closestBattery cx store (a # as) i (bestBatteryIndex, minDist) =
     closestBattery cx store as (i + 1)
       (let b = store ! a in
        if \<not> isDestroyed b then
          (let dist = jabs (jsub (x (pos b)) cx) in
           if jlt dist minDist then (i, dist) else (bestBatteryIndex, minDist))
        else (bestBatteryIndex, minDist))"

definition newMissile :: "Point \<Rightarrow> Point \<Rightarrow> int \<Rightarrow> bool \<Rightarrow> PlayerMissile" where
  "newMissile from to i g =
     \<lparr>pos = from, start = from, target = to, progress = Val 0,
      speed = Val PLAYER_MISSILE_SPEED, originBatteryIndex = i, isGravityBomb = Some g\<rparr>"

definition handleCanvasClick :: "nat option \<Rightarrow> jsnum \<Rightarrow> jsnum \<Rightarrow> bool \<Rightarrow> World \<Rightarrow> World" where
  "handleCanvasClick button cx cy isGravity w =
     (let gs = gameState w in
      if status gs \<noteq> PLAYING then w
      else if button = Some 2 \<and> \<not> isGravity then w
      else
        (let bestBatteryIndex = fst (closestBattery cx (batteryStore w) (batteries gs) 0 (- 1, PInf)) in
         if bestBatteryIndex \<noteq> - 1 then
           (let battery = batteryStore w ! (batteries gs ! nat bestBatteryIndex);
                isTripleShot = \<not> isGravity;
                newMissiles =
                  (if isTripleShot then
                     map (\<lambda>offsetX. newMissile (pos battery) \<lparr>x = jadd cx (Val offsetX), y = cy\<rparr>
                                        bestBatteryIndex False)
                         [- 25, 0, 25]
                   else [newMissile (pos battery) \<lparr>x = cx, y = cy\<rparr> bestBatteryIndex isGravity])
            in w\<lparr>gameState := gs\<lparr>playerMissiles := playerMissiles gs @ newMissiles\<rparr>\<rparr>)
         else w))"

text \<open>The values a loop \<open>for (let c = c0; c < bound; c += 200)\<close> visits.\<close>

function gridCoords :: "real \<Rightarrow> real \<Rightarrow> real list" where
  "gridCoords c bound = (if c < bound then c # gridCoords (c + 200) bound else [])"
  by pat_completeness auto
termination
  by (relation "measure (\<lambda>(c, bound). nat \<lceil>bound - c\<rceil>)") (auto, linarith)

declare gridCoords.simps [simp del]

definition megaExplosion :: "real \<Rightarrow> real \<Rightarrow> Explosion" where
  "megaExplosion gx gy =
     \<lparr>pos = \<lparr>x = Val gx, y = Val gy\<rparr>, radius = Val 0, maxRadius = Val 300, life = Val 1,
      isExpanding = True\<rparr>"

definition triggerMegaExplosion :: "World \<Rightarrow> World" where
  "triggerMegaExplosion w =
     (let prev = gameState w in
      if status prev \<noteq> PLAYING then w
      else
        (let clearedRocketsCount = length (rockets prev);
             newExplosions =
               concat (map (\<lambda>gx. map (\<lambda>gy. megaExplosion gx gy) (gridCoords 100 GAME_HEIGHT))
                           (gridCoords 100 GAME_WIDTH))
         in w\<lparr>gameState := prev
               \<lparr>score := jadd (score prev) (jmul (Val (real clearedRocketsCount)) (Val SCORE_PER_ROCKET)),
                rockets := [],
                explosions := explosions prev @ newExplosions\<rparr>\<rparr>))"

section \<open>App.tsx: the tick\<close>

text \<open>
  The values of the calls of \<open>Math.random()\<close> that decide something in one tick, in the
  order of the calls: the spawn test, and in \<open>spawnRocket\<close> the start abscissa, the
  choice of the target and the speed jitter. \<open>Math.random()\<close> lies in \<open>[0, 1)\<close>, so the
  index \<open>Math.floor(Math.random() * targets.length)\<close> is inside \<open>targets\<close>.
\<close>

record Rand =
  spawnRoll :: real
  startRoll :: real
  targetRoll :: real
  speedRoll :: real

definition spawnRocket :: "Rand \<Rightarrow> World \<Rightarrow> Rocket option" where
  "spawnRocket rnd w =
     (let gs = gameState w;
          from = \<lparr>x = jmul (Val (startRoll rnd)) (Val GAME_WIDTH), y = Val 0\<rparr>;
          targets =
            map (\<lambda>a. pos (cityStore w ! a)) (filter (\<lambda>a. \<not> isDestroyed (cityStore w ! a)) (cities gs)) @
            map (\<lambda>a. pos (batteryStore w ! a)) (filter (\<lambda>a. \<not> isDestroyed (batteryStore w ! a)) (batteries gs))
      in if length targets = 0 then None
         else
           Some \<lparr>pos = from, start = from,
                 target = targets ! nat \<lfloor>targetRoll rnd * real (length targets)\<rfloor>,
                 progress = Val 0,
                 speed = jadd (jadd (Val ROCKET_SPEED_BASE) (jmul (Val (speedRoll rnd)) (Val 0.0005)))
                              (jmul (level gs) (Val 0.0002))\<rparr>)"

text \<open>
  The three lines that move a rocket or a missile:
  \<open>r.progress += r.speed; r.pos.x = ...; r.pos.y = ...\<close>.
\<close>

definition advance :: "'a Rocket_scheme \<Rightarrow> 'a Rocket_scheme" where
  "advance r =
     (let p = jadd (progress r) (speed r) in
      r\<lparr>progress := p,
        pos := \<lparr>x = jadd (x (start r)) (jmul (jsub (x (target r)) (x (start r))) p),
                y = jadd (y (start r)) (jmul (jsub (y (target r)) (y (start r))) p)\<rparr>\<rparr>)"

text \<open>
  \<open>forEach(c => { if (!c.isDestroyed && Math.abs(c.pos.x - r.target.x) < 20)
  c.isDestroyed = true; })\<close> over the objects an array of addresses points to.
\<close>

fun destroyNear :: "jsnum \<Rightarrow> addr list \<Rightarrow> 'a City_scheme list \<Rightarrow> 'a City_scheme list" where
  "destroyNear tx [] store = store"
| "destroyNear tx (a # as) store =
     destroyNear tx as
       (let c = store ! a in
        if \<not> isDestroyed c \<and> jlt (jabs (jsub (x (pos c)) tx)) (Val 20)
        then store[a := c\<lparr>isDestroyed := True\<rparr>] else store)"

definition newExplosion :: "Point \<Rightarrow> real \<Rightarrow> Explosion" where
  "newExplosion p m =
     \<lparr>pos = p, radius = Val 0, maxRadius = Val m, life = Val 1, isExpanding = True\<rparr>"

text \<open>
  2. Update Rockets. The loop runs from the last index down to the first, so the head of
  the list is visited after its tail. The result is the array of the surviving rockets
  with the stores and the explosions.
\<close>

fun updateRockets ::
  "addr list \<Rightarrow> addr list \<Rightarrow> Rocket list \<Rightarrow> City list \<times> Battery list \<times> Explosion list \<Rightarrow>
   Rocket list \<times> City list \<times> Battery list \<times> Explosion list" where
  "updateRockets nextCities nextBatteries [] st = ([], st)"
| "updateRockets nextCities nextBatteries (r0 # rs) st =
     (let (rs', cs, bs, es) = updateRockets nextCities nextBatteries rs st;
          r = advance r0
      in if jge (progress r) (Val 1) then
           (rs',
            destroyNear (x (target r)) nextCities cs,
            destroyNear (x (target r)) nextBatteries bs,
            es @ [newExplosion (target r) EXPLOSION_MAX_RADIUS])
         else (r # rs', cs, bs, es))"

text \<open>3. Update Player Missiles, in the same order.\<close>

fun updatePlayerMissiles ::
  "PlayerMissile list \<Rightarrow> Explosion list \<Rightarrow> PlayerMissile list \<times> Explosion list" where
  "updatePlayerMissiles [] es = ([], es)"
| "updatePlayerMissiles (m0 # ms) es0 =
     (let (ms', es) = updatePlayerMissiles ms es0;
          m = advance m0
      in if jge (progress m) (Val 1) then
           (ms',
            es @ [newExplosion (target m)
                    (if isGravityBomb m = Some True then EXPLOSION_MAX_RADIUS * 2
                     else EXPLOSION_MAX_RADIUS)])
         else (m # ms', es))"

text \<open>
  4. Update Explosions. The radius of one explosion: \<open>None\<close> when the explosion is spliced
  out of the array.
\<close>

definition stepExplosion :: "Explosion \<Rightarrow> Explosion option" where
  "stepExplosion e =
     (if isExpanding e then
        (let r = jadd (radius e) (jmul (Val EXPLOSION_GROWTH_SPEED) (maxRadius e)) in
         Some (e\<lparr>radius := r, isExpanding := \<not> jge r (maxRadius e)\<rparr>))
      else
        (let r = jsub (radius e) (jmul (Val EXPLOSION_DECAY_SPEED) (maxRadius e)) in
         if jle r (Val 0) then None else Some (e\<lparr>radius := r\<rparr>)))"

text \<open>
  \<open>dist\<close>, the distance of a rocket at \<open>p\<close> from the centre \<open>c\<close> of an explosion:
  \<open>Math.sqrt(dx ** 2 + dy ** 2)\<close>.
\<close>

definition distance :: "Point \<Rightarrow> Point \<Rightarrow> jsnum" where
  "distance p c = jsqrt (jadd (jsquare (jsub (x p) (x c))) (jsquare (jsub (y p) (y c))))"

text \<open>
  The pull effect on one rocket, with \<open>dx\<close>, \<open>dy\<close> and \<open>dist\<close> as the loop body computed
  them: \<open>r.pos.x -= (dx / dist) * force\<close> and the same for \<open>y\<close>.
\<close>

definition pull :: "Explosion \<Rightarrow> Rocket \<Rightarrow> Rocket" where
  "pull e r =
     (let dx = jsub (x (pos r)) (x (pos e));
          dy = jsub (y (pos r)) (y (pos e));
          dist = distance (pos r) (pos e);
          force = jmul (jdiv (jsub (jmul (radius e) (Val 2)) dist) (jmul (radius e) (Val 2))) (Val 2)
      in r\<lparr>pos := \<lparr>x = jsub (x (pos r)) (jmul (jdiv dx dist) force),
                    y = jsub (y (pos r)) (jmul (jdiv dy dist) force)\<rparr>\<rparr>)"

text \<open>
  The inner loop of one explosion \<open>e\<close> (its radius already updated) over the rockets, again
  from the last index down: the surviving rockets, the score and the explosions pushed.
\<close>

fun hitRockets ::
  "Explosion \<Rightarrow> bool \<Rightarrow> Rocket list \<Rightarrow> jsnum \<times> Explosion list \<Rightarrow>
   Rocket list \<times> jsnum \<times> Explosion list" where
  "hitRockets e isGravity [] st = ([], st)"
| "hitRockets e isGravity (r0 # rs) st =
     (let (rs', nextScore, pushed) = hitRockets e isGravity rs st;
          dist = distance (pos r0) (pos e);
          r = (if isGravity \<and> jlt dist (jmul (radius e) (Val 2)) then pull e r0 else r0)
      in if jlt dist (radius e) then
           (rs', jadd nextScore (Val SCORE_PER_ROCKET),
            pushed @ [newExplosion (pos r) (EXPLOSION_MAX_RADIUS * 0.8)])
         else (r # rs', nextScore, pushed))"

text \<open>
  The outer loop, from the last explosion down. The explosions pushed go to the end of
  the array, behind the index of the loop, so they are not visited in this tick: the
  result keeps them apart from the explosions that stay.
\<close>

fun updateExplosions ::
  "Explosion list \<Rightarrow> Rocket list \<times> jsnum \<times> Explosion list \<Rightarrow>
   Explosion list \<times> Rocket list \<times> jsnum \<times> Explosion list" where
  "updateExplosions [] st = ([], st)"
| "updateExplosions (e0 # es) st =
     (let (es', rs, nextScore, pushed) = updateExplosions es st;
          isGravity = jgt (maxRadius e0) (Val EXPLOSION_MAX_RADIUS)
      in case stepExplosion e0 of
           None \<Rightarrow> (es', rs, nextScore, pushed)
         | Some e \<Rightarrow>
             (let (rs', nextScore', pushed') = hitRockets e isGravity rs (nextScore, pushed)
              in (e # es', rs', nextScore', pushed')))"

text \<open>1. Spawn rockets: the array \<open>nextRockets\<close> after the first step.\<close>

definition spawnRockets :: "Rand \<Rightarrow> World \<Rightarrow> Rocket list" where
  "spawnRockets rnd w =
     (let prev = gameState w in
      if jlt (Val (spawnRoll rnd)) (jadd (Val 0.015) (jmul (level prev) (Val 0.003)))
      then (case spawnRocket rnd w of None \<Rightarrow> rockets prev | Some r \<Rightarrow> rockets prev @ [r])
      else rockets prev)"

definition update :: "Rand \<Rightarrow> World \<Rightarrow> World" where
  "update rnd w =
     (let prev = gameState w in
      if status prev \<noteq> PLAYING then w
      else
        (let (rs2, nextCityStore, nextBatteryStore, es2) =
               updateRockets (cities prev) (batteries prev) (spawnRockets rnd w)
                 (cityStore w, batteryStore w, explosions prev);
             (nextPlayerMissiles, es3) = updatePlayerMissiles (playerMissiles prev) es2;
             (es4, nextRockets, nextScore, pushed) = updateExplosions es3 (rs2, score prev, []);
             targetScore = jmul (level prev) (Val WIN_SCORE);
             nextStatus =
               (if jge nextScore targetScore then WON
                else if list_all (\<lambda>a. isDestroyed (nextBatteryStore ! a)) (batteries prev) then LOST
                else status prev)
         in \<lparr>cityStore = nextCityStore, batteryStore = nextBatteryStore,
             gameState = prev
               \<lparr>score := nextScore, status := nextStatus, rockets := nextRockets,
                playerMissiles := nextPlayerMissiles, explosions := es4 @ pushed\<rparr>\<rparr>))"

text \<open>The worlds a run of the program can reach.\<close>

inductive reachable :: "World \<Rightarrow> bool" where
  reach_init: "reachable initialWorld"
| reach_start: "reachable w \<Longrightarrow> status (gameState w) = START \<or> status (gameState w) = LOST \<Longrightarrow>
     reachable (startGame w)"
| reach_next: "reachable w \<Longrightarrow> status (gameState w) = WON \<Longrightarrow> reachable (nextLevel w)"
| reach_click: "reachable w \<Longrightarrow> reachable (handleCanvasClick button cx cy isGravity w)"
| reach_mega: "reachable w \<Longrightarrow> reachable (triggerMegaExplosion w)"
| reach_update: "reachable w \<Longrightarrow> reachable (update rnd w)"

section \<open>Auxiliary definitions for the statements\<close>

text \<open>A tick in which the spawn test fails (\<open>0.5\<close> is not below the spawn probability).\<close>

definition noSpawn :: Rand where
  "noSpawn = \<lparr>spawnRoll = 0.5, startRoll = 0, targetRoll = 0, speedRoll = 0\<rparr>"

text \<open>The centres of the grid of \<open>triggerMegaExplosion\<close>, in the order of its two loops.\<close>

definition megaGrid :: "(real \<times> real) list" where
  "megaGrid = [(100, 100), (100, 300), (100, 500), (300, 100), (300, 300), (300, 500),
               (500, 100), (500, 300), (500, 500), (700, 100), (700, 300), (700, 500)]"

text \<open>
  A rocket after the statement \<open>if (isGravity && dist < e.radius * 2) { ... }\<close> of the inner
  loop of explosion \<open>e\<close>.
\<close>

definition afterPull :: "Explosion \<Rightarrow> bool \<Rightarrow> Rocket \<Rightarrow> Rocket" where
  "afterPull e isGravity r =
     (if isGravity \<and> jlt (distance (pos r) (pos e)) (jmul (radius e) (Val 2)) then pull e r else r)"

text \<open>
  The addresses of a state point into the stores, the store of the cities keeps its six
  objects, and every battery object has a finite abscissa.
\<close>

definition wellFormed :: "World \<Rightarrow> bool" where
  "wellFormed w =
     (length (cityStore w) = CITY_COUNT \<and>
      length BATTERY_CONFIGS \<le> length (batteryStore w) \<and>
      list_all (\<lambda>a. a < length (cityStore w)) (cities (gameState w)) \<and>
      list_all (\<lambda>a. a < length (batteryStore w)) (batteries (gameState w)) \<and>
      list_all (\<lambda>b. isFinite (x (pos b))) (batteryStore w))"

section \<open>Example worlds\<close>

text \<open>
  Concrete states for the instances below. \<open>exampleWorld\<close> is the initial world with the
  given status, score, \<open>isDestroyed\<close> flags of the cities and of the batteries, rockets,
  missiles and explosions.
\<close>

definition exampleRocket :: "real \<Rightarrow> real \<Rightarrow> real \<Rightarrow> Rocket" where
  "exampleRocket tx ty p =
     \<lparr>pos = \<lparr>x = Val tx, y = Val (ty * p)\<rparr>, start = \<lparr>x = Val tx, y = Val 0\<rparr>,
      target = \<lparr>x = Val tx, y = Val ty\<rparr>, progress = Val p, speed = Val 0.011\<rparr>"

definition exampleWorld ::
  "GameStatus \<Rightarrow> real \<Rightarrow> bool list \<Rightarrow> bool list \<Rightarrow> Rocket list \<Rightarrow> PlayerMissile list \<Rightarrow>
   Explosion list \<Rightarrow> World" where
  "exampleWorld st sc citiesDown batteriesDown rs ms es =
     \<lparr>cityStore = map (\<lambda>(c, d). c\<lparr>isDestroyed := d\<rparr>) (zip (cityStore initialWorld) citiesDown),
      batteryStore = map (\<lambda>(b, d). b\<lparr>isDestroyed := d\<rparr>) (zip (batteryStore initialWorld) batteriesDown),
      gameState = INITIAL_STATE
        \<lparr>status := st, score := Val sc, rockets := rs, playerMissiles := ms, explosions := es\<rparr>\<rparr>"

definition allUp :: "nat \<Rightarrow> bool list" where
  "allUp n = replicate n False"

definition allDown :: "nat \<Rightarrow> bool list" where
  "allDown n = replicate n True"

definition exampleExplosion :: "real \<Rightarrow> real \<Rightarrow> real \<Rightarrow> real \<Rightarrow> Explosion" where
  "exampleExplosion cx cy r m =
     \<lparr>pos = \<lparr>x = Val cx, y = Val cy\<rparr>, radius = Val r, maxRadius = Val m, life = Val 1,
      isExpanding = True\<rparr>"

definition crowdedWorld :: World where
  "crowdedWorld = exampleWorld PLAYING 100 (allUp 6) (allUp 3)
      [exampleRocket 120 580 0.5, exampleRocket 400 570 0.5] [] []"

definition impactWorld :: World where
  "impactWorld = exampleWorld PLAYING 0 (allUp 6) (allUp 3)
      [exampleRocket 120 580 0.99, exampleRocket 400 570 0.99] [] []"

definition exampleMissile :: "real \<Rightarrow> real \<Rightarrow> bool \<Rightarrow> real \<Rightarrow> PlayerMissile" where
  "exampleMissile tx ty g p =
     (newMissile \<lparr>x = Val 400, y = Val 570\<rparr> \<lparr>x = Val tx, y = Val ty\<rparr> 1 g)
       \<lparr>progress := Val p,
        pos := \<lparr>x = Val (400 + (tx - 400) * p), y = Val (570 + (ty - 570) * p)\<rparr>\<rparr>"

definition missileWorld :: World where
  "missileWorld = exampleWorld PLAYING 0 (allUp 6) (allUp 3) []
      [exampleMissile 300 200 True 0.975, exampleMissile 500 250 False 0.975] []"


text \<open>
  A missile as \<open>handleCanvasClick\<close> creates it: at the battery \<open>(bx, by)\<close> of index \<open>i\<close>, aimed
  at \<open>(tx, ty)\<close>.
\<close>

definition firedMissile :: "real \<Rightarrow> real \<Rightarrow> int \<Rightarrow> real \<Rightarrow> real \<Rightarrow> bool \<Rightarrow> PlayerMissile" where
  "firedMissile bx by i tx ty g =
     \<lparr>pos = \<lparr>x = Val bx, y = Val by\<rparr>, start = \<lparr>x = Val bx, y = Val by\<rparr>,
      target = \<lparr>x = Val tx, y = Val ty\<rparr>, progress = Val 0, speed = Val 0.025,
      originBatteryIndex = i, isGravityBomb = Some g\<rparr>"

definition woundedWorld :: World where
  "woundedWorld = exampleWorld PLAYING 0 (allUp 6) [True, False, False] [] [] []"

text \<open>A tick in which a rocket is spawned, with the three rolls of \<open>spawnRocket\<close>.\<close>

definition spawnAt :: "real \<Rightarrow> real \<Rightarrow> real \<Rightarrow> Rand" where
  "spawnAt s t j = \<lparr>spawnRoll = 0.1, startRoll = s, targetRoll = t, speedRoll = j\<rparr>"

text \<open>
  Four runs from the first render. \<open>overRun\<close>: start, the area clear, 17 ticks.
  \<open>lostRun\<close>: start, three ticks that spawn a rocket above each battery with speeds that
  make all three land in tick 94, and the 91 ticks until then. \<open>nanRun\<close>: start, a gravity
  shot at \<open>(120, 6.38)\<close>, 39 ticks, and the tick in which the missile lands and a rocket
  is spawned at \<open>(120, 0)\<close>, aimed at the first city with speed 0.011: its first step
  takes it to \<open>(120, 6.38)\<close>. The values that decide this run are the same in IEEE
  doubles: 40 additions of 0.025 reach 1 in tick 40, \<open>0.15 * 800\<close> is 120, the speed
  \<open>0.0007 + 0.6 * 0.0005 + 50 * 0.0002\<close> is 0.011 and \<open>580 * 0.011\<close> is 6.38.
  \<open>staleRun\<close>: start, a gravity shot at \<open>(120, 20.08)\<close>, 40 ticks, in the last of which the
  missile lands, and the tick that spawns the same rocket: after its first step it is
  13.7 units above the centre of the explosion, whose radius is 13.2 by then.
\<close>

definition overRun :: World where
  "overRun = (update noSpawn ^^ 17) (triggerMegaExplosion (startGame initialWorld))"

definition lostRun :: World where
  "lostRun =
     (update noSpawn ^^ 91)
       (update (spawnAt 0.95 0.9 0.4)
         (update (spawnAt 0.5 0.8 0.2)
           (update (spawnAt 0.05 0.7 0) (startGame initialWorld))))"

definition nanRun :: World where
  "nanRun =
     update (spawnAt 0.15 0 0.6)
       ((update noSpawn ^^ 39)
         (handleCanvasClick (Some 2) (Val 120) (Val 6.38) True (startGame initialWorld)))"



definition fadingWorld :: World where
  "fadingWorld = exampleWorld PLAYING 0 (allUp 6) (allUp 3) [] []
     [exampleExplosion 300 200 52.8 55,
      (exampleExplosion 500 250 0.825 55)\<lparr>isExpanding := False\<rparr>]"

text \<open>
  The invariant of the explosions of a reachable world: while expanding, the radius is a
  multiple of the growth step below the maximal radius.
\<close>

definition explosionInv :: "Explosion \<Rightarrow> bool" where
  "explosionInv e =
     (\<exists>r m. radius e = Val r \<and> maxRadius e = Val m \<and> 0 < m \<and> 0 \<le> r \<and> r \<le> 1.02 * m \<and>
        (isExpanding e \<longrightarrow> r < m \<and> (\<exists>k::nat. r = real k * (EXPLOSION_GROWTH_SPEED * m))))"

section \<open>Evaluation and the loops in closed form\<close>

lemmas constants_defs =
  GAME_WIDTH_def GAME_HEIGHT_def ROCKET_SPEED_BASE_def PLAYER_MISSILE_SPEED_def
  EXPLOSION_MAX_RADIUS_def EXPLOSION_GROWTH_SPEED_def EXPLOSION_DECAY_SPEED_def
  SCORE_PER_ROCKET_def WIN_SCORE_def CITY_COUNT_def BATTERY_CONFIGS_def

lemmas num_defs = jsub_def jgt_def jge_def jsquare_def jinf_def

lemmas init_defs = initialWorld_def INITIAL_STATE_def initialCity_def initialBattery_def
  startGame_def

lemma gridCoords_width: "gridCoords 100 GAME_WIDTH = [100, 300, 500, 700]"
  by (simp add: GAME_WIDTH_def gridCoords.simps)

lemma gridCoords_height: "gridCoords 100 GAME_HEIGHT = [100, 300, 500]"
  by (simp add: GAME_HEIGHT_def gridCoords.simps)

lemma destroyNear_length [simp]: "length (destroyNear tx as store) = length store"
  by (induction as arbitrary: store) (simp_all add: Let_def)

lemma destroyNear_nth:
  "b < length store \<Longrightarrow>
   destroyNear tx as store ! b =
     (if b \<in> set as \<and> \<not> isDestroyed (store ! b) \<and> jlt (jabs (jsub (x (pos (store ! b))) tx)) (Val 20)
      then (store ! b)\<lparr>isDestroyed := True\<rparr> else store ! b)"
proof (induction as arbitrary: store)
  case Nil
  then show ?case by simp
next
  case (Cons a as)
  show ?case
  proof (cases "a = b")
    case True
    with Cons show ?thesis by (simp add: Let_def)
  next
    case False
    with Cons show ?thesis by (auto simp add: Let_def)
  qed
qed

lemma destroyNear_mono:
  "b < length store \<Longrightarrow> isDestroyed (store ! b) \<Longrightarrow> isDestroyed (destroyNear tx as store ! b)"
  by (simp add: destroyNear_nth)

lemma destroyNear_pos:
  "b < length store \<Longrightarrow> pos (destroyNear tx as store ! b) = pos (store ! b)"
  by (simp add: destroyNear_nth)

lemma updateRockets_eq:
  "updateRockets nc nb rs (cs, bs, es) =
     (filter (\<lambda>r. \<not> jge (progress r) (Val 1)) (map advance rs),
      foldr (\<lambda>r. destroyNear (x (target r)) nc)
        (filter (\<lambda>r. jge (progress r) (Val 1)) (map advance rs)) cs,
      foldr (\<lambda>r. destroyNear (x (target r)) nb)
        (filter (\<lambda>r. jge (progress r) (Val 1)) (map advance rs)) bs,
      es @ map (\<lambda>r. newExplosion (target r) EXPLOSION_MAX_RADIUS)
             (rev (filter (\<lambda>r. jge (progress r) (Val 1)) (map advance rs))))"
  by (induction rs) (simp_all add: Let_def)

lemma foldr_destroyNear_length [simp]:
  "length (foldr (\<lambda>r. destroyNear (x (target r)) nc) rs store) = length store"
  by (induction rs) simp_all

lemma foldr_destroyNear_pos:
  "b < length store \<Longrightarrow> pos (foldr (\<lambda>r. destroyNear (x (target r)) nc) rs store ! b) = pos (store ! b)"
  by (induction rs) (simp_all add: destroyNear_pos)

lemma foldr_destroyNear_mono:
  "b < length store \<Longrightarrow> isDestroyed (store ! b) \<Longrightarrow>
   isDestroyed (foldr (\<lambda>r. destroyNear (x (target r)) nc) rs store ! b)"
  by (induction rs) (simp_all add: destroyNear_mono)

lemma foldr_destroyNear_hit:
  assumes "b < length store" "b \<in> set nc" "r \<in> set rs"
    "jlt (jabs (jsub (x (pos (store ! b))) (x (target r)))) (Val 20)"
  shows "isDestroyed (foldr (\<lambda>r. destroyNear (x (target r)) nc) rs store ! b)"
  using assms
proof (induction rs)
  case Nil
  then show ?case by simp
next
  case (Cons r' rs)
  let ?s = "foldr (\<lambda>r. destroyNear (x (target r)) nc) rs store"
  show ?case
  proof (cases "r = r'")
    case True
    have "b < length ?s" using Cons.prems by simp
    moreover have "pos (?s ! b) = pos (store ! b)" using Cons.prems by (simp add: foldr_destroyNear_pos)
    ultimately show ?thesis using Cons.prems True
      by (simp add: destroyNear_nth)
  next
    case False
    then have "isDestroyed (?s ! b)" using Cons by simp
    then show ?thesis using Cons.prems by (simp add: destroyNear_mono)
  qed
qed

lemma updatePlayerMissiles_eq:
  "updatePlayerMissiles ms es =
     (filter (\<lambda>m. \<not> jge (progress m) (Val 1)) (map advance ms),
      es @ map (\<lambda>m. newExplosion (target m)
                  (if isGravityBomb m = Some True then EXPLOSION_MAX_RADIUS * 2 else EXPLOSION_MAX_RADIUS))
             (rev (filter (\<lambda>m. jge (progress m) (Val 1)) (map advance ms))))"
  by (induction ms) (simp_all add: Let_def)

lemma hitRockets_eq:
  "hitRockets e g rs (sc, pushed) =
     (map (afterPull e g) (filter (\<lambda>r. \<not> jlt (distance (pos r) (pos e)) (radius e)) rs),
      ((\<lambda>s. jadd s (Val SCORE_PER_ROCKET)) ^^
         length (filter (\<lambda>r. jlt (distance (pos r) (pos e)) (radius e)) rs)) sc,
      pushed @ map (\<lambda>r. newExplosion (pos (afterPull e g r)) (EXPLOSION_MAX_RADIUS * 0.8))
                 (rev (filter (\<lambda>r. jlt (distance (pos r) (pos e)) (radius e)) rs)))"
  by (induction rs) (simp_all add: Let_def afterPull_def)

lemma advance_target [simp]: "target (advance r) = target r"
  by (simp add: advance_def Let_def)

lemma advance_isGravityBomb [simp]: "isGravityBomb (advance m) = isGravityBomb m"
  by (simp add: advance_def Let_def)

lemma afterPull_progress [simp]: "progress (afterPull e g r) = progress r"
  by (simp add: afterPull_def pull_def Let_def)

text \<open>What the loop over the explosions keeps, removes and counts.\<close>

lemma updateExplosions_props:
  "updateExplosions es (rs, sc, pushed) = (es', rs', sc', pushed') \<Longrightarrow>
     es' = List.map_filter stepExplosion es \<and>
     length rs' \<le> length rs \<and>
     set (map progress rs') \<subseteq> set (map progress rs) \<and>
     sc' = ((\<lambda>s. jadd s (Val SCORE_PER_ROCKET)) ^^ (length rs - length rs')) sc \<and>
     length pushed' = length pushed + (length rs - length rs') \<and>
     (\<forall>e \<in> set (drop (length pushed) pushed').
        radius e = Val 0 \<and> maxRadius e = Val (EXPLOSION_MAX_RADIUS * 0.8) \<and> isExpanding e) \<and>
     take (length pushed) pushed' = pushed"
proof (induction es arbitrary: es' rs' sc' pushed')
  case Nil
  then show ?case by (simp add: List.map_filter_simps)
next
  case (Cons e0 es)
  obtain es1 rs1 sc1 p1 where tail: "updateExplosions es (rs, sc, pushed) = (es1, rs1, sc1, p1)"
    by (metis prod_cases4)
  from Cons.IH [OF tail]
  have ih1: "es1 = List.map_filter stepExplosion es"
    and ih2: "length rs1 \<le> length rs"
    and ih3: "set (map progress rs1) \<subseteq> set (map progress rs)"
    and ih4: "sc1 = ((\<lambda>s. jadd s (Val SCORE_PER_ROCKET)) ^^ (length rs - length rs1)) sc"
    and ih5: "length p1 = length pushed + (length rs - length rs1)"
    and ih6: "\<forall>e \<in> set (drop (length pushed) p1).
        radius e = Val 0 \<and> maxRadius e = Val (EXPLOSION_MAX_RADIUS * 0.8) \<and> isExpanding e"
    and ih7: "take (length pushed) p1 = pushed"
    by blast+
  show ?case
  proof (cases "stepExplosion e0")
    case None
    have "es' = es1" "rs' = rs1" "sc' = sc1" "pushed' = p1"
      using Cons.prems tail None by simp_all
    with ih1 ih2 ih3 ih4 ih5 ih6 ih7 None show ?thesis
      by (simp add: List.map_filter_simps)
  next
    case (Some e)
    let ?g = "jgt (maxRadius e0) (Val EXPLOSION_MAX_RADIUS)"
    let ?kill = "\<lambda>r. jlt (distance (pos r) (pos e)) (radius e)"
    let ?new = "map (\<lambda>r. newExplosion (pos (afterPull e ?g r)) (EXPLOSION_MAX_RADIUS * 0.8))
                       (rev (filter ?kill rs1))"
    have res: "es' = e # es1" "rs' = map (afterPull e ?g) (filter (\<lambda>r. \<not> ?kill r) rs1)"
      "sc' = ((\<lambda>s. jadd s (Val SCORE_PER_ROCKET)) ^^ length (filter ?kill rs1)) sc1"
      "pushed' = p1 @ ?new"
      using Cons.prems tail Some by (simp_all add: hitRockets_eq Let_def)
    have cnt: "length (filter ?kill rs1) + length rs' = length rs1"
      using sum_length_filter_compl [of ?kill rs1] by (simp add: res)
    have le: "length rs' \<le> length rs1"
      using cnt by simp
    have k: "length (filter ?kill rs1) = length rs1 - length rs'"
      using cnt by simp
    have sum: "(length rs1 - length rs') + (length rs - length rs1) = length rs - length rs'"
      using le ih2 by simp
    have "sc' = ((\<lambda>s. jadd s (Val SCORE_PER_ROCKET)) ^^ (length rs1 - length rs')) sc1"
      unfolding res(3) k ..
    then have "sc' = ((\<lambda>s. jadd s (Val SCORE_PER_ROCKET)) ^^
        ((length rs1 - length rs') + (length rs - length rs1))) sc"
      using ih4 by (simp only: funpow_add o_apply)
    then have c4: "sc' = ((\<lambda>s. jadd s (Val SCORE_PER_ROCKET)) ^^ (length rs - length rs')) sc"
      by (simp only: sum)
    have "length pushed' = length p1 + (length rs1 - length rs')"
      unfolding res(4) using k by simp
    then have c5: "length pushed' = length pushed + (length rs - length rs')"
      using ih5 le ih2 by arith
    have c3: "set (map progress rs') \<subseteq> set (map progress rs)"
      using ih3 by (auto simp add: res(2))
    have c1: "es' = List.map_filter stepExplosion (e0 # es)"
      using ih1 Some by (simp add: res(1) List.map_filter_simps)
    have lp: "length pushed \<le> length p1" using ih5 by simp
    have c7: "take (length pushed) pushed' = pushed"
      using ih7 lp by (simp add: res(4))
    have "drop (length pushed) pushed' = drop (length pushed) p1 @ ?new"
      using lp by (simp add: res(4))
    then have c6: "\<forall>e \<in> set (drop (length pushed) pushed').
        radius e = Val 0 \<and> maxRadius e = Val (EXPLOSION_MAX_RADIUS * 0.8) \<and> isExpanding e"
      using ih6 by (auto simp add: newExplosion_def)
    have c2: "length rs' \<le> length rs" using le ih2 by simp
    from c1 c2 c3 c4 c5 c6 c7 show ?thesis by blast
  qed
qed

text \<open>The tick as the composition of its four steps.\<close>

lemma update_eq:
  assumes "status (gameState w) = PLAYING"
    and "updateExplosions
           (explosions (gameState w) @
            map (\<lambda>r. newExplosion (target r) EXPLOSION_MAX_RADIUS)
              (rev (filter (\<lambda>r. jge (progress r) (Val 1)) (map advance (spawnRockets rnd w)))) @
            map (\<lambda>m. newExplosion (target m)
                   (if isGravityBomb m = Some True then EXPLOSION_MAX_RADIUS * 2 else EXPLOSION_MAX_RADIUS))
              (rev (filter (\<lambda>m. jge (progress m) (Val 1)) (map advance (playerMissiles (gameState w))))))
           (filter (\<lambda>r. \<not> jge (progress r) (Val 1)) (map advance (spawnRockets rnd w)),
            score (gameState w), []) = (es4, rs4, sc4, pushed)"
  shows "update rnd w =
     \<lparr>cityStore = foldr (\<lambda>r. destroyNear (x (target r)) (cities (gameState w)))
          (filter (\<lambda>r. jge (progress r) (Val 1)) (map advance (spawnRockets rnd w))) (cityStore w),
      batteryStore = foldr (\<lambda>r. destroyNear (x (target r)) (batteries (gameState w)))
          (filter (\<lambda>r. jge (progress r) (Val 1)) (map advance (spawnRockets rnd w))) (batteryStore w),
      gameState = (gameState w)
        \<lparr>score := sc4,
         status :=
           (if jge sc4 (jmul (level (gameState w)) (Val WIN_SCORE)) then WON
            else if list_all
                (\<lambda>a. isDestroyed
                   (foldr (\<lambda>r. destroyNear (x (target r)) (batteries (gameState w)))
                      (filter (\<lambda>r. jge (progress r) (Val 1)) (map advance (spawnRockets rnd w)))
                      (batteryStore w) ! a))
                (batteries (gameState w)) then LOST
            else PLAYING),
         rockets := rs4,
         playerMissiles :=
           filter (\<lambda>m. \<not> jge (progress m) (Val 1)) (map advance (playerMissiles (gameState w))),
         explosions := es4 @ pushed\<rparr>\<rparr>"
  using assms by (simp add: update_def Let_def updateRockets_eq updatePlayerMissiles_eq)

lemma spawnRockets_prefix: "set (rockets (gameState w)) \<subseteq> set (spawnRockets rnd w)"
  by (auto simp add: spawnRockets_def Let_def split: option.splits)

lemma map_mem: "a \<in> set xs \<Longrightarrow> f a \<in> set (map f xs)"
  by simp

lemma map_filter_mem:
  "e \<in> set es \<Longrightarrow> f e = Some e' \<Longrightarrow> e' \<in> set (List.map_filter f es)"
  by (force simp add: List.map_filter_def)

lemma spawnRockets_playerMissiles [simp]:
  "spawnRockets rnd (w\<lparr>gameState := (gameState w)\<lparr>playerMissiles := ms\<rparr>\<rparr>) = spawnRockets rnd w"
  by (simp add: spawnRockets_def spawnRocket_def Let_def)

lemma update_stores:
  "status (gameState w) = PLAYING \<Longrightarrow>
   cityStore (update rnd w) =
     foldr (\<lambda>r. destroyNear (x (target r)) (cities (gameState w)))
       (filter (\<lambda>r. jge (progress r) (Val 1)) (map advance (spawnRockets rnd w))) (cityStore w) \<and>
   batteryStore (update rnd w) =
     foldr (\<lambda>r. destroyNear (x (target r)) (batteries (gameState w)))
       (filter (\<lambda>r. jge (progress r) (Val 1)) (map advance (spawnRockets rnd w))) (batteryStore w)"
  by (simp add: update_def Let_def updateRockets_eq split: prod.splits)

lemma distance_vertical:
  "distance \<lparr>x = Val a, y = Val p\<rparr> \<lparr>x = Val a, y = Val b\<rparr> = Val \<bar>p - b\<bar>"
  by (simp add: distance_def num_defs not_less)


lemmas eval_defs = update_def spawnRockets_def spawnRocket_def advance_def newExplosion_def
  stepExplosion_def pull_def Let_def num_defs constants_defs init_defs upt_rec

lemma replicate_3: "replicate 3 a = [a, a, a]" and replicate_6: "replicate 6 a = [a, a, a, a, a, a]"
  by (simp_all add: numeral_eq_Suc)

lemmas example_defs = exampleRocket_def exampleWorld_def exampleExplosion_def noSpawn_def
  allUp_def allDown_def replicate_3 replicate_6

lemma exampleWorld_status [simp]: "status (gameState (exampleWorld st sc cd bd rs ms es)) = st"
  by (simp add: exampleWorld_def)

subsection \<open>Reachable worlds are well formed\<close>

lemma foldr_destroyNear_finite:
  "list_all (\<lambda>b. isFinite (x (pos b))) store \<Longrightarrow>
   list_all (\<lambda>b. isFinite (x (pos b))) (foldr (\<lambda>r. destroyNear (x (target r)) nb) rs store)"
  by (simp add: list_all_length foldr_destroyNear_pos)

lemma wellFormed_update: "wellFormed w \<Longrightarrow> wellFormed (update rnd w)"
proof (cases "status (gameState w) = PLAYING")
  case False
  assume "wellFormed w"
  with False show ?thesis by (simp add: update_def Let_def)
next
  case True
  assume wf: "wellFormed w"
  have gs: "cities (gameState (update rnd w)) = cities (gameState w)"
    "batteries (gameState (update rnd w)) = batteries (gameState w)"
    using True by (simp_all add: update_def Let_def split: prod.splits)
  from update_stores [OF True, of rnd] wf show ?thesis
    unfolding wellFormed_def gs by (auto simp add: foldr_destroyNear_finite)
qed

lemma wellFormed_nextLevel: "wellFormed w \<Longrightarrow> wellFormed (nextLevel w)"
  unfolding wellFormed_def nextLevel_def Let_def
  by (auto simp add: list_all_iff)

lemma wellFormed_reachable: "reachable w \<Longrightarrow> wellFormed w"
proof (induction rule: reachable.induct)
  case reach_init
  show ?case
    by (simp add: wellFormed_def initialWorld_def INITIAL_STATE_def list_all_iff
        initialBattery_def)
next
  case (reach_start w)
  then show ?case
    by (auto simp add: wellFormed_def startGame_def INITIAL_STATE_def list_all_iff)
next
  case (reach_next w)
  then show ?case by (simp add: wellFormed_nextLevel)
next
  case (reach_click w button cx cy isGravity)
  then show ?case by (auto simp add: wellFormed_def handleCanvasClick_def Let_def)
next
  case (reach_mega w)
  then show ?case by (auto simp add: wellFormed_def triggerMegaExplosion_def Let_def)
next
  case (reach_update w rnd)
  then show ?case by (simp add: wellFormed_update)
qed

section \<open>The claims\<close>

subsection \<open>C9: the area clear\<close>

lemma mega_example:
  "triggerMegaExplosion crowdedWorld =
   exampleWorld PLAYING 140 (allUp 6) (allUp 3) [] []
     (map (\<lambda>(gx, gy). exampleExplosion gx gy 0 300) megaGrid)"
  by (simp add: triggerMegaExplosion_def crowdedWorld_def GAME_WIDTH_def GAME_HEIGHT_def
      gridCoords.simps example_defs init_defs SCORE_PER_ROCKET_def megaGrid_def megaExplosion_def)

text \<open>
  Claim C9. While the status is \<open>PLAYING\<close>, \<open>triggerMegaExplosion\<close> with \<open>N\<close> live rockets
  empties the rocket array, adds exactly \<open>N * SCORE_PER_ROCKET\<close> to the score and appends
  the twelve explosions of the fixed grid \<open>megaGrid\<close> (radius 0, maximal radius 300), which
  do not depend on the rockets; nothing else changes. While the status is not \<open>PLAYING\<close>
  the world is unchanged.
\<close>

theorem triggerMegaExplosion_clears:
  "(status (gameState w) = PLAYING \<longrightarrow>
      triggerMegaExplosion w =
        w\<lparr>gameState := (gameState w)
          \<lparr>score := jadd (score (gameState w))
                        (Val (real (length (rockets (gameState w))) * SCORE_PER_ROCKET)),
           rockets := [],
           explosions := explosions (gameState w) @
             map (\<lambda>(gx, gy). megaExplosion gx gy) megaGrid\<rparr>\<rparr>) \<and>
   (status (gameState w) \<noteq> PLAYING \<longrightarrow> triggerMegaExplosion w = w)"
  by (simp add: triggerMegaExplosion_def gridCoords_width gridCoords_height megaGrid_def Let_def)

theorem triggerMegaExplosion_clears_witness:
  "status (gameState crowdedWorld) = PLAYING \<and>
   length (rockets (gameState crowdedWorld)) = 2 \<and>
   triggerMegaExplosion crowdedWorld =
     exampleWorld PLAYING 140 (allUp 6) (allUp 3) [] []
       (map (\<lambda>(gx, gy). exampleExplosion gx gy 0 300) megaGrid) \<and>
   status (gameState initialWorld) \<noteq> PLAYING \<and>
   triggerMegaExplosion initialWorld = initialWorld"
proof -
  have playing: "status (gameState crowdedWorld) = PLAYING"
    and two: "length (rockets (gameState crowdedWorld)) = 2"
    by (simp_all add: crowdedWorld_def exampleWorld_def INITIAL_STATE_def)
  have idle: "status (gameState initialWorld) \<noteq> PLAYING"
    by (simp add: initialWorld_def INITIAL_STATE_def)
  from triggerMegaExplosion_clears [of initialWorld] idle
  have "triggerMegaExplosion initialWorld = initialWorld" by blast
  with playing two idle mega_example show ?thesis by blast
qed

subsection \<open>C2: the status checks\<close>

lemma status_examples:
  "update noSpawn (exampleWorld PLAYING 50000 (allUp 6) (allDown 3) [] [] []) =
     exampleWorld WON 50000 (allUp 6) (allDown 3) [] [] []"
  "update noSpawn (exampleWorld PLAYING 49980 (allUp 6) (allDown 3) [] [] []) =
     exampleWorld LOST 49980 (allUp 6) (allDown 3) [] [] []"
  "update noSpawn (exampleWorld PLAYING 49980 (allDown 6) (allUp 3) [] [] []) =
     exampleWorld PLAYING 49980 (allDown 6) (allUp 3) [] [] []"
  by (simp_all add: example_defs eval_defs)

text \<open>
  Claim C2. A tick of a \<open>PLAYING\<close> world sets the status from the score and the
  batteries as they are after the tick: \<open>WON\<close> exactly when the score is at least
  \<open>level * WIN_SCORE\<close>; otherwise \<open>LOST\<close> exactly when every battery of the state is
  destroyed; otherwise \<open>PLAYING\<close>. The cities do not occur in the test, and a tick that
  meets both conditions gives \<open>WON\<close>.
\<close>

theorem update_status:
  assumes "status (gameState w) = PLAYING"
  shows "status (gameState (update rnd w)) =
     (if jge (score (gameState (update rnd w))) (jmul (level (gameState w)) (Val WIN_SCORE)) then WON
      else if list_all (\<lambda>a. isDestroyed (batteryStore (update rnd w) ! a))
                (batteries (gameState (update rnd w))) then LOST
      else PLAYING)"
  using assms by (simp add: update_def Let_def split: prod.splits)

theorem update_status_witness:
  "status (gameState (exampleWorld PLAYING 50000 (allUp 6) (allDown 3) [] [] [])) = PLAYING \<and>
   status (gameState (update noSpawn (exampleWorld PLAYING 50000 (allUp 6) (allDown 3) [] [] []))) = WON \<and>
   status (gameState (update noSpawn (exampleWorld PLAYING 49980 (allUp 6) (allDown 3) [] [] []))) = LOST \<and>
   status (gameState (update noSpawn (exampleWorld PLAYING 49980 (allDown 6) (allUp 3) [] [] []))) = PLAYING"
proof -
  have playing: "status (gameState (exampleWorld PLAYING 50000 (allUp 6) (allDown 3) [] [] [])) = PLAYING"
    by simp
  note update_status [OF playing, of noSpawn]
  then show ?thesis by (simp add: status_examples)
qed

subsection \<open>C6: the impact of a rocket\<close>

lemma impact_example:
  "update noSpawn impactWorld =
   exampleWorld PLAYING 0 [True, False, False, False, False, False] [False, True, False] [] []
      [exampleExplosion 400 570 3.3 55, exampleExplosion 120 580 3.3 55]"
  by (simp add: impactWorld_def example_defs eval_defs)

text \<open>
  Claim C6. When a rocket \<open>r\<close> of a \<open>PLAYING\<close> world (or the rocket spawned in the tick)
  reaches \<open>progress >= 1\<close> in a tick, then after the tick every city and every battery
  of the state whose abscissa is strictly less than 20 units from the abscissa of the
  rocket's target is destroyed, no rocket with \<open>progress >= 1\<close> is left in the rocket
  array, and the explosions hold an explosion at the rocket's target with the standard
  maximal radius (already grown by one step of the same tick). Addresses are taken
  inside the stores, as they are in every reachable world (\<open>wellFormed_reachable\<close>).
\<close>

theorem rocket_impact:
  assumes playing: "status (gameState w) = PLAYING"
    and r: "r \<in> set (rockets (gameState w)) \<or> r \<in> set (spawnRockets rnd w)"
    and landed: "jge (progress (advance r)) (Val 1)"
  shows "(\<forall>a \<in> set (cities (gameState w)). a < length (cityStore w) \<longrightarrow>
            jlt (jabs (jsub (x (pos (cityStore w ! a))) (x (target r)))) (Val 20) \<longrightarrow>
            isDestroyed (cityStore (update rnd w) ! a)) \<and>
         (\<forall>a \<in> set (batteries (gameState w)). a < length (batteryStore w) \<longrightarrow>
            jlt (jabs (jsub (x (pos (batteryStore w ! a))) (x (target r)))) (Val 20) \<longrightarrow>
            isDestroyed (batteryStore (update rnd w) ! a)) \<and>
         (\<forall>r' \<in> set (rockets (gameState (update rnd w))). \<not> jge (progress r') (Val 1)) \<and>
         (newExplosion (target r) EXPLOSION_MAX_RADIUS)
            \<lparr>radius := Val (EXPLOSION_GROWTH_SPEED * EXPLOSION_MAX_RADIUS)\<rparr>
           \<in> set (explosions (gameState (update rnd w)))"
proof -
  let ?flown = "map advance (spawnRockets rnd w)"
  let ?landed = "filter (\<lambda>r. jge (progress r) (Val 1)) ?flown"
  let ?es3 = "explosions (gameState w) @
            map (\<lambda>r. newExplosion (target r) EXPLOSION_MAX_RADIUS) (rev ?landed) @
            map (\<lambda>m. newExplosion (target m)
                   (if isGravityBomb m = Some True then EXPLOSION_MAX_RADIUS * 2 else EXPLOSION_MAX_RADIUS))
              (rev (filter (\<lambda>m. jge (progress m) (Val 1)) (map advance (playerMissiles (gameState w)))))"
  let ?rs2 = "filter (\<lambda>r. \<not> jge (progress r) (Val 1)) ?flown"
  obtain es4 rs4 sc4 pushed
    where ue: "updateExplosions ?es3 (?rs2, score (gameState w), []) = (es4, rs4, sc4, pushed)"
    using prod_cases4 by blast
  note upd = update_eq [OF playing ue]
  have cs: "cityStore (update rnd w) =
      foldr (\<lambda>r. destroyNear (x (target r)) (cities (gameState w))) ?landed (cityStore w)"
    and bs: "batteryStore (update rnd w) =
      foldr (\<lambda>r. destroyNear (x (target r)) (batteries (gameState w))) ?landed (batteryStore w)"
    and rs: "rockets (gameState (update rnd w)) = rs4"
    and es: "explosions (gameState (update rnd w)) = es4 @ pushed"
    unfolding upd by simp_all
  from updateExplosions_props [OF ue]
  have es4: "es4 = List.map_filter stepExplosion ?es3"
    and sub: "set (map progress rs4) \<subseteq> set (map progress ?rs2)"
    by blast+
  have "r \<in> set (spawnRockets rnd w)"
    using r spawnRockets_prefix [of w rnd] by blast
  then have in_landed: "advance r \<in> set ?landed"
    using landed by simp
  have city: "\<forall>a \<in> set (cities (gameState w)). a < length (cityStore w) \<longrightarrow>
            jlt (jabs (jsub (x (pos (cityStore w ! a))) (x (target r)))) (Val 20) \<longrightarrow>
            isDestroyed (cityStore (update rnd w) ! a)"
  proof (intro ballI impI)
    fix a
    assume a: "a \<in> set (cities (gameState w))" "a < length (cityStore w)"
      and near: "jlt (jabs (jsub (x (pos (cityStore w ! a))) (x (target r)))) (Val 20)"
    from near have "jlt (jabs (jsub (x (pos (cityStore w ! a))) (x (target (advance r))))) (Val 20)"
      by simp
    from foldr_destroyNear_hit [OF a(2) a(1) in_landed this]
    show "isDestroyed (cityStore (update rnd w) ! a)" unfolding cs .
  qed
  have battery: "\<forall>a \<in> set (batteries (gameState w)). a < length (batteryStore w) \<longrightarrow>
            jlt (jabs (jsub (x (pos (batteryStore w ! a))) (x (target r)))) (Val 20) \<longrightarrow>
            isDestroyed (batteryStore (update rnd w) ! a)"
  proof (intro ballI impI)
    fix a
    assume a: "a \<in> set (batteries (gameState w))" "a < length (batteryStore w)"
      and near: "jlt (jabs (jsub (x (pos (batteryStore w ! a))) (x (target r)))) (Val 20)"
    from near have "jlt (jabs (jsub (x (pos (batteryStore w ! a))) (x (target (advance r))))) (Val 20)"
      by simp
    from foldr_destroyNear_hit [OF a(2) a(1) in_landed this]
    show "isDestroyed (batteryStore (update rnd w) ! a)" unfolding bs .
  qed
  have gone: "\<forall>r' \<in> set (rockets (gameState (update rnd w))). \<not> jge (progress r') (Val 1)"
  proof
    fix r'
    assume "r' \<in> set (rockets (gameState (update rnd w)))"
    then have "progress r' \<in> set (map progress rs4)" unfolding rs by simp
    with sub have "progress r' \<in> set (map progress ?rs2)" by blast
    then show "\<not> jge (progress r') (Val 1)" by auto
  qed
  have "advance r \<in> set (rev ?landed)" using in_landed by simp
  then have "newExplosion (target (advance r)) EXPLOSION_MAX_RADIUS \<in>
      set (map (\<lambda>r. newExplosion (target r) EXPLOSION_MAX_RADIUS) (rev ?landed))"
    by (rule map_mem)
  then have mem: "newExplosion (target r) EXPLOSION_MAX_RADIUS \<in> set ?es3"
    by simp
  have step: "stepExplosion (newExplosion (target r) EXPLOSION_MAX_RADIUS) =
      Some ((newExplosion (target r) EXPLOSION_MAX_RADIUS)
              \<lparr>radius := Val (EXPLOSION_GROWTH_SPEED * EXPLOSION_MAX_RADIUS)\<rparr>)"
    by (simp add: stepExplosion_def newExplosion_def Let_def jge_def constants_defs)
  have "(newExplosion (target r) EXPLOSION_MAX_RADIUS)
            \<lparr>radius := Val (EXPLOSION_GROWTH_SPEED * EXPLOSION_MAX_RADIUS)\<rparr> \<in> set es4"
    unfolding es4 using mem step by (rule map_filter_mem)
  then have expl: "(newExplosion (target r) EXPLOSION_MAX_RADIUS)
            \<lparr>radius := Val (EXPLOSION_GROWTH_SPEED * EXPLOSION_MAX_RADIUS)\<rparr>
           \<in> set (explosions (gameState (update rnd w)))"
    unfolding es by simp
  from city battery gone expl show ?thesis by blast
qed
theorem rocket_impact_witness:
  "status (gameState impactWorld) = PLAYING \<and>
   exampleRocket 120 580 0.99 \<in> set (rockets (gameState impactWorld)) \<and>
   jge (progress (advance (exampleRocket 120 580 0.99))) (Val 1) \<and>
   jlt (jabs (jsub (x (pos (cityStore impactWorld ! 0))) (x (target (exampleRocket 120 580 0.99)))))
     (Val 20) \<and>
   isDestroyed (cityStore (update noSpawn impactWorld) ! 0) \<and>
   update noSpawn impactWorld =
     exampleWorld PLAYING 0 [True, False, False, False, False, False] [False, True, False] [] []
       [exampleExplosion 400 570 3.3 55, exampleExplosion 120 580 3.3 55]"
proof -
  have playing: "status (gameState impactWorld) = PLAYING"
    by (simp add: impactWorld_def)
  have r: "exampleRocket 120 580 0.99 \<in> set (rockets (gameState impactWorld))"
    by (simp add: impactWorld_def exampleWorld_def INITIAL_STATE_def)
  then have r': "exampleRocket 120 580 0.99 \<in> set (rockets (gameState impactWorld)) \<or>
      exampleRocket 120 580 0.99 \<in> set (spawnRockets noSpawn impactWorld)"
    by (rule disjI1)
  have landed: "jge (progress (advance (exampleRocket 120 580 0.99))) (Val 1)"
    by (simp add: exampleRocket_def advance_def num_defs)
  have near: "jlt (jabs (jsub (x (pos (cityStore impactWorld ! 0)))
      (x (target (exampleRocket 120 580 0.99))))) (Val 20)"
    by (simp add: impactWorld_def example_defs init_defs constants_defs upt_rec num_defs)
  have a: "0 \<in> set (cities (gameState impactWorld))" "0 < length (cityStore impactWorld)"
    by (simp_all add: impactWorld_def example_defs init_defs constants_defs upt_rec)
  from rocket_impact [OF playing r' landed] a near
  have "isDestroyed (cityStore (update noSpawn impactWorld) ! 0)" by blast
  with playing r landed near impact_example show ?thesis by blast
qed
subsection \<open>C7: the impact of a player missile\<close>

text \<open>
  Claim C7. In a tick of a \<open>PLAYING\<close> world the missiles that stay are exactly the advanced
  missiles with \<open>progress < 1\<close>; for every missile that reaches \<open>progress >= 1\<close> the loop
  pushes one explosion at its target whose maximal radius is twice the standard one
  when the missile is flagged as a gravity bomb and the standard one otherwise (the
  explosions of the next state hold it, grown by one step); and the city and battery
  stores after the tick do not depend on the missiles.
\<close>

theorem missile_impact:
  assumes playing: "status (gameState w) = PLAYING"
  shows "playerMissiles (gameState (update rnd w)) =
           filter (\<lambda>m. \<not> jge (progress m) (Val 1)) (map advance (playerMissiles (gameState w))) \<and>
         (\<forall>m \<in> set (playerMissiles (gameState w)). jge (progress (advance m)) (Val 1) \<longrightarrow>
            (newExplosion (target m)
               (if isGravityBomb m = Some True then EXPLOSION_MAX_RADIUS * 2 else EXPLOSION_MAX_RADIUS))
              \<lparr>radius := Val (EXPLOSION_GROWTH_SPEED *
                 (if isGravityBomb m = Some True then EXPLOSION_MAX_RADIUS * 2 else EXPLOSION_MAX_RADIUS))\<rparr>
            \<in> set (explosions (gameState (update rnd w)))) \<and>
         updatePlayerMissiles ms es =
           (filter (\<lambda>m. \<not> jge (progress m) (Val 1)) (map advance ms),
            es @ map (\<lambda>m. newExplosion (target m)
                        (if isGravityBomb m = Some True then EXPLOSION_MAX_RADIUS * 2
                         else EXPLOSION_MAX_RADIUS))
                   (rev (filter (\<lambda>m. jge (progress m) (Val 1)) (map advance ms)))) \<and>
         cityStore (update rnd (w\<lparr>gameState := (gameState w)\<lparr>playerMissiles := ms\<rparr>\<rparr>)) =
           cityStore (update rnd w) \<and>
         batteryStore (update rnd (w\<lparr>gameState := (gameState w)\<lparr>playerMissiles := ms\<rparr>\<rparr>)) =
           batteryStore (update rnd w)"
proof -
  let ?radiusOf = "\<lambda>m::PlayerMissile.
     if isGravityBomb m = Some True then EXPLOSION_MAX_RADIUS * 2 else EXPLOSION_MAX_RADIUS"
  let ?flown = "map advance (spawnRockets rnd w)"
  let ?landed = "filter (\<lambda>m. jge (progress m) (Val 1)) (map advance (playerMissiles (gameState w)))"
  let ?es3 = "explosions (gameState w) @
            map (\<lambda>r. newExplosion (target r) EXPLOSION_MAX_RADIUS)
              (rev (filter (\<lambda>r. jge (progress r) (Val 1)) ?flown)) @
            map (\<lambda>m. newExplosion (target m) (?radiusOf m)) (rev ?landed)"
  let ?rs2 = "filter (\<lambda>r. \<not> jge (progress r) (Val 1)) ?flown"
  obtain es4 rs4 sc4 pushed
    where ue: "updateExplosions ?es3 (?rs2, score (gameState w), []) = (es4, rs4, sc4, pushed)"
    using prod_cases4 by blast
  note upd = update_eq [OF playing ue]
  have ms: "playerMissiles (gameState (update rnd w)) =
           filter (\<lambda>m. \<not> jge (progress m) (Val 1)) (map advance (playerMissiles (gameState w)))"
    and es: "explosions (gameState (update rnd w)) = es4 @ pushed"
    unfolding upd by simp_all
  from updateExplosions_props [OF ue]
  have es4: "es4 = List.map_filter stepExplosion ?es3"
    by blast
  have expl: "\<forall>m \<in> set (playerMissiles (gameState w)). jge (progress (advance m)) (Val 1) \<longrightarrow>
            (newExplosion (target m) (?radiusOf m))
              \<lparr>radius := Val (EXPLOSION_GROWTH_SPEED * ?radiusOf m)\<rparr>
            \<in> set (explosions (gameState (update rnd w)))"
  proof (intro ballI impI)
    fix m
    assume m: "m \<in> set (playerMissiles (gameState w))" and l: "jge (progress (advance m)) (Val 1)"
    then have "advance m \<in> set (rev ?landed)" by simp
    then have "newExplosion (target (advance m)) (?radiusOf (advance m)) \<in>
        set (map (\<lambda>m. newExplosion (target m) (?radiusOf m)) (rev ?landed))"
      by (rule map_mem)
    then have mem: "newExplosion (target m) (?radiusOf m) \<in> set ?es3"
      by simp
    have step: "stepExplosion (newExplosion (target m) (?radiusOf m)) =
        Some ((newExplosion (target m) (?radiusOf m))
                \<lparr>radius := Val (EXPLOSION_GROWTH_SPEED * ?radiusOf m)\<rparr>)"
      by (simp add: stepExplosion_def newExplosion_def Let_def jge_def constants_defs)
    have "(newExplosion (target m) (?radiusOf m))
                \<lparr>radius := Val (EXPLOSION_GROWTH_SPEED * ?radiusOf m)\<rparr> \<in> set es4"
      unfolding es4 using mem step by (rule map_filter_mem)
    then show "(newExplosion (target m) (?radiusOf m))
              \<lparr>radius := Val (EXPLOSION_GROWTH_SPEED * ?radiusOf m)\<rparr>
            \<in> set (explosions (gameState (update rnd w)))"
      unfolding es by simp
  qed
  have stores: "cityStore (update rnd (w\<lparr>gameState := (gameState w)\<lparr>playerMissiles := ms\<rparr>\<rparr>)) =
           cityStore (update rnd w)"
     "batteryStore (update rnd (w\<lparr>gameState := (gameState w)\<lparr>playerMissiles := ms\<rparr>\<rparr>)) =
           batteryStore (update rnd w)"
    using playing by (simp_all add: update_stores)
  from ms expl stores show ?thesis
    by (simp only: updatePlayerMissiles_eq simp_thms)
qed

lemma missile_example:
  "update noSpawn missileWorld =
   exampleWorld PLAYING 0 (allUp 6) (allUp 3) [] []
      [exampleExplosion 500 250 3.3 55, exampleExplosion 300 200 6.6 110]"
  by (simp add: missileWorld_def exampleMissile_def newMissile_def example_defs eval_defs)

theorem missile_impact_witness:
  "status (gameState missileWorld) = PLAYING \<and>
   playerMissiles (gameState missileWorld) =
     [exampleMissile 300 200 True 0.975, exampleMissile 500 250 False 0.975] \<and>
   jge (progress (advance (exampleMissile 300 200 True 0.975))) (Val 1) \<and>
   jge (progress (advance (exampleMissile 500 250 False 0.975))) (Val 1) \<and>
   playerMissiles (gameState (update noSpawn missileWorld)) = [] \<and>
   update noSpawn missileWorld =
     exampleWorld PLAYING 0 (allUp 6) (allUp 3) [] []
       [exampleExplosion 500 250 3.3 55, exampleExplosion 300 200 6.6 110]"
proof -
  have playing: "status (gameState missileWorld) = PLAYING"
    by (simp add: missileWorld_def)
  have ms: "playerMissiles (gameState missileWorld) =
     [exampleMissile 300 200 True 0.975, exampleMissile 500 250 False 0.975]"
    by (simp add: missileWorld_def exampleWorld_def INITIAL_STATE_def)
  have landed: "jge (progress (advance (exampleMissile 300 200 True 0.975))) (Val 1)"
    "jge (progress (advance (exampleMissile 500 250 False 0.975))) (Val 1)"
    by (simp_all add: exampleMissile_def newMissile_def advance_def num_defs constants_defs)
  from missile_impact [OF playing, of noSpawn "[]" "[]"]
  have "playerMissiles (gameState (update noSpawn missileWorld)) =
      filter (\<lambda>m. \<not> jge (progress m) (Val 1)) (map advance (playerMissiles (gameState missileWorld)))"
    by blast
  then have "playerMissiles (gameState (update noSpawn missileWorld)) = []"
    using landed by (simp add: ms)
  with playing ms landed missile_example show ?thesis by blast
qed

subsection \<open>C3: the pull and the kill test\<close>





subsection \<open>C8: the fire command\<close>

lemma jlt_trans: "jlt a b \<Longrightarrow> jlt b c \<Longrightarrow> jlt a c"
  by (cases a; cases b; cases c) simp_all

lemma jlt_imp_jle: "jlt a b \<Longrightarrow> jle a b"
  by (cases a; cases b) simp_all

lemma not_jlt_imp_jle: "isFinite a \<Longrightarrow> isFinite b \<Longrightarrow> \<not> jlt a b \<Longrightarrow> jle b a"
  by (cases a; cases b) simp_all

lemma jlt_below_bound: "isFinite a \<Longrightarrow> \<not> jlt a b \<Longrightarrow> jlt c b \<Longrightarrow> jlt c a"
  by (cases a; cases b; cases c) simp_all

lemma jlt_PInf: "isFinite a \<Longrightarrow> jlt a PInf"
  by (cases a) simp_all

lemma jabs_jsub_finite: "isFinite a \<Longrightarrow> isFinite b \<Longrightarrow> isFinite (jabs (jsub a b))"
  by (cases a; cases b) (simp_all add: jsub_def)

text \<open>What the search for the closest battery returns.\<close>

lemma closestBattery_spec:
  assumes "\<forall>a \<in> set as. \<not> isDestroyed (store ! a) \<longrightarrow> isFinite (jabs (jsub (x (pos (store ! a))) cx))"
  shows
    "(closestBattery cx store as i (best, md) = (best, md) \<and>
      (\<forall>a \<in> set as. \<not> isDestroyed (store ! a) \<longrightarrow> \<not> jlt (jabs (jsub (x (pos (store ! a))) cx)) md)) \<or>
     (\<exists>k < length as.
        closestBattery cx store as i (best, md) =
          (i + int k, jabs (jsub (x (pos (store ! (as ! k)))) cx)) \<and>
        \<not> isDestroyed (store ! (as ! k)) \<and>
        jlt (jabs (jsub (x (pos (store ! (as ! k)))) cx)) md \<and>
        (\<forall>j < length as. \<not> isDestroyed (store ! (as ! j)) \<longrightarrow>
           jle (jabs (jsub (x (pos (store ! (as ! k)))) cx)) (jabs (jsub (x (pos (store ! (as ! j)))) cx))) \<and>
        (\<forall>j < k. \<not> isDestroyed (store ! (as ! j)) \<longrightarrow>
           jlt (jabs (jsub (x (pos (store ! (as ! k)))) cx)) (jabs (jsub (x (pos (store ! (as ! j)))) cx))))"
  using assms
proof (induction as arbitrary: i best md)
  case Nil
  then show ?case by simp
next
  case (Cons a as)
  let ?d = "\<lambda>a. jabs (jsub (x (pos (store ! a))) cx)"
  let ?alive = "\<lambda>a. \<not> isDestroyed (store ! a)"
  have fin: "\<forall>a \<in> set as. ?alive a \<longrightarrow> isFinite (?d a)"
    using Cons.prems by simp
  show ?case
  proof (cases "?alive a \<and> jlt (?d a) md")
    case True
    then have step: "closestBattery cx store (a # as) i (best, md) =
        closestBattery cx store as (i + 1) (i, ?d a)"
      by (simp add: Let_def)
    have fa: "isFinite (?d a)" using True Cons.prems by simp
    from Cons.IH [OF fin, of "i + 1" i "?d a"]
    show ?thesis
    proof (elim disjE conjE exE)
      assume res: "closestBattery cx store as (i + 1) (i, ?d a) = (i, ?d a)"
        and none: "\<forall>a' \<in> set as. ?alive a' \<longrightarrow> \<not> jlt (?d a') (?d a)"
      have "\<forall>j < length (a # as). ?alive ((a # as) ! j) \<longrightarrow> jle (?d a) (?d ((a # as) ! j))"
      proof (intro allI impI)
        fix j assume j: "j < length (a # as)" and al: "?alive ((a # as) ! j)"
        show "jle (?d a) (?d ((a # as) ! j))"
        proof (cases j)
          case 0
          then show ?thesis using fa by (cases "?d a") simp_all
        next
          case (Suc j')
          then have mem: "as ! j' \<in> set as" using j by simp
          then have "\<not> jlt (?d (as ! j')) (?d a)" using none al Suc by simp
          moreover have "isFinite (?d (as ! j'))" using fin mem al Suc by simp
          ultimately show ?thesis using fa Suc by (simp add: not_jlt_imp_jle)
        qed
      qed
      then show ?thesis using True res step
        by (intro disjI2 exI [of _ 0]) simp
    next
      fix k
      assume k: "k < length as"
        and res: "closestBattery cx store as (i + 1) (i, ?d a) = (i + 1 + int k, ?d (as ! k))"
        and al: "?alive (as ! k)"
        and less: "jlt (?d (as ! k)) (?d a)"
        and min: "\<forall>j < length as. ?alive (as ! j) \<longrightarrow> jle (?d (as ! k)) (?d (as ! j))"
        and first: "\<forall>j < k. ?alive (as ! j) \<longrightarrow> jlt (?d (as ! k)) (?d (as ! j))"
      have 1: "jlt (?d (as ! k)) md" using less True jlt_trans by blast
      have 2: "\<forall>j < length (a # as). ?alive ((a # as) ! j) \<longrightarrow>
          jle (?d ((a # as) ! Suc k)) (?d ((a # as) ! j))"
      proof (intro allI impI)
        fix j assume j: "j < length (a # as)" and alj: "?alive ((a # as) ! j)"
        show "jle (?d ((a # as) ! Suc k)) (?d ((a # as) ! j))"
          using j alj min less by (cases j) (simp_all add: jlt_imp_jle)
      qed
      have 3: "\<forall>j < Suc k. ?alive ((a # as) ! j) \<longrightarrow>
          jlt (?d ((a # as) ! Suc k)) (?d ((a # as) ! j))"
      proof (intro allI impI)
        fix j assume j: "j < Suc k" and alj: "?alive ((a # as) ! j)"
        show "jlt (?d ((a # as) ! Suc k)) (?d ((a # as) ! j))"
          using j alj first less by (cases j) simp_all
      qed
      show ?thesis
        using k res al 1 2 3 step
        by (intro disjI2 exI [of _ "Suc k"]) simp
    qed
  next
    case False
    then have step: "closestBattery cx store (a # as) i (best, md) =
        closestBattery cx store as (i + 1) (best, md)"
      by (auto simp add: Let_def)
    from Cons.IH [OF fin, of "i + 1" best md]
    show ?thesis
    proof (elim disjE conjE exE)
      assume res: "closestBattery cx store as (i + 1) (best, md) = (best, md)"
        and none: "\<forall>a' \<in> set as. ?alive a' \<longrightarrow> \<not> jlt (?d a') md"
      show ?thesis using res none False step by (intro disjI1) auto
    next
      fix k
      assume k: "k < length as"
        and res: "closestBattery cx store as (i + 1) (best, md) = (i + 1 + int k, ?d (as ! k))"
        and al: "?alive (as ! k)"
        and less: "jlt (?d (as ! k)) md"
        and min: "\<forall>j < length as. ?alive (as ! j) \<longrightarrow> jle (?d (as ! k)) (?d (as ! j))"
        and first: "\<forall>j < k. ?alive (as ! j) \<longrightarrow> jlt (?d (as ! k)) (?d (as ! j))"
      have head: "?alive a \<Longrightarrow> jlt (?d (as ! k)) (?d a)"
      proof -
        assume ala: "?alive a"
        then have "\<not> jlt (?d a) md" using False by simp
        moreover have "isFinite (?d a)" using ala Cons.prems by simp
        ultimately show ?thesis using less jlt_below_bound by blast
      qed
      have 2: "\<forall>j < length (a # as). ?alive ((a # as) ! j) \<longrightarrow>
          jle (?d ((a # as) ! Suc k)) (?d ((a # as) ! j))"
      proof (intro allI impI)
        fix j assume j: "j < length (a # as)" and alj: "?alive ((a # as) ! j)"
        show "jle (?d ((a # as) ! Suc k)) (?d ((a # as) ! j))"
          using j alj min head by (cases j) (simp_all add: jlt_imp_jle)
      qed
      have 3: "\<forall>j < Suc k. ?alive ((a # as) ! j) \<longrightarrow>
          jlt (?d ((a # as) ! Suc k)) (?d ((a # as) ! j))"
      proof (intro allI impI)
        fix j assume j: "j < Suc k" and alj: "?alive ((a # as) ! j)"
        show "jlt (?d ((a # as) ! Suc k)) (?d ((a # as) ! j))"
          using j alj first head by (cases j) simp_all
      qed
      show ?thesis
        using k res al less 2 3 step
        by (intro disjI2 exI [of _ "Suc k"]) simp
    qed
  qed
qed

text \<open>
  Claim C8. A click at a finite abscissa while the status is \<open>PLAYING\<close> (not the right
  button in the normal click handler), with batteries at finite abscissas, as they are
  in every reachable world (\<open>wellFormed_reachable\<close>): if every
  battery is destroyed the world is unchanged; otherwise a battery \<open>k\<close> is chosen that is
  not destroyed and whose horizontal distance to the click is minimal among the
  batteries that are not destroyed (the first such battery of the array on a tie), and
  the world changes only by the missiles appended:
  for a gravity shot one missile flagged as a gravity bomb from battery \<open>k\<close> to the click
  point, otherwise three missiles, not flagged, from battery \<open>k\<close> to the click point
  offset by \<open>-25\<close>, \<open>0\<close> and \<open>25\<close> on \<open>x\<close>. Every missile starts at the position of
  battery \<open>k\<close> with progress 0, speed \<open>PLAYER_MISSILE_SPEED\<close> and origin index \<open>k\<close>.
\<close>

theorem handleCanvasClick_fires:
  assumes playing: "status (gameState w) = PLAYING"
    and fire: "\<not> (button = Some 2 \<and> \<not> isGravity)"
    and fin_click: "isFinite cx"
    and fin_batteries: "\<forall>a \<in> set (batteries (gameState w)). isFinite (x (pos (batteryStore w ! a)))"
  shows
    "(list_all (\<lambda>a. isDestroyed (batteryStore w ! a)) (batteries (gameState w)) \<longrightarrow>
        handleCanvasClick button cx cy isGravity w = w) \<and>
     (\<not> list_all (\<lambda>a. isDestroyed (batteryStore w ! a)) (batteries (gameState w)) \<longrightarrow>
        (\<exists>k < length (batteries (gameState w)).
           \<not> isDestroyed (batteryStore w ! (batteries (gameState w) ! k)) \<and>
           (\<forall>j < length (batteries (gameState w)).
              \<not> isDestroyed (batteryStore w ! (batteries (gameState w) ! j)) \<longrightarrow>
              jle (jabs (jsub (x (pos (batteryStore w ! (batteries (gameState w) ! k)))) cx))
                  (jabs (jsub (x (pos (batteryStore w ! (batteries (gameState w) ! j)))) cx))) \<and>
           (\<forall>j < k.
              \<not> isDestroyed (batteryStore w ! (batteries (gameState w) ! j)) \<longrightarrow>
              jlt (jabs (jsub (x (pos (batteryStore w ! (batteries (gameState w) ! k)))) cx))
                  (jabs (jsub (x (pos (batteryStore w ! (batteries (gameState w) ! j)))) cx))) \<and>
           handleCanvasClick button cx cy isGravity w =
             w\<lparr>gameState := (gameState w)
               \<lparr>playerMissiles := playerMissiles (gameState w) @
                  (if isGravity then
                     [\<lparr>pos = pos (batteryStore w ! (batteries (gameState w) ! k)),
                        start = pos (batteryStore w ! (batteries (gameState w) ! k)),
                        target = \<lparr>x = cx, y = cy\<rparr>, progress = Val 0,
                        speed = Val PLAYER_MISSILE_SPEED, originBatteryIndex = int k,
                        isGravityBomb = Some True\<rparr>]
                   else
                     [\<lparr>pos = pos (batteryStore w ! (batteries (gameState w) ! k)),
                        start = pos (batteryStore w ! (batteries (gameState w) ! k)),
                        target = \<lparr>x = jadd cx (Val (- 25)), y = cy\<rparr>, progress = Val 0,
                        speed = Val PLAYER_MISSILE_SPEED, originBatteryIndex = int k,
                        isGravityBomb = Some False\<rparr>,
                      \<lparr>pos = pos (batteryStore w ! (batteries (gameState w) ! k)),
                        start = pos (batteryStore w ! (batteries (gameState w) ! k)),
                        target = \<lparr>x = jadd cx (Val 0), y = cy\<rparr>, progress = Val 0,
                        speed = Val PLAYER_MISSILE_SPEED, originBatteryIndex = int k,
                        isGravityBomb = Some False\<rparr>,
                      \<lparr>pos = pos (batteryStore w ! (batteries (gameState w) ! k)),
                        start = pos (batteryStore w ! (batteries (gameState w) ! k)),
                        target = \<lparr>x = jadd cx (Val 25), y = cy\<rparr>, progress = Val 0,
                        speed = Val PLAYER_MISSILE_SPEED, originBatteryIndex = int k,
                        isGravityBomb = Some False\<rparr>])\<rparr>\<rparr>))"
proof -
  let ?bs = "batteries (gameState w)"
  let ?store = "batteryStore w"
  let ?d = "\<lambda>a. jabs (jsub (x (pos (?store ! a))) cx)"
  have fin: "\<forall>a \<in> set ?bs. \<not> isDestroyed (?store ! a) \<longrightarrow> isFinite (?d a)"
    using fin_click fin_batteries by (simp add: jabs_jsub_finite)
  from closestBattery_spec [OF fin, of 0 "- 1" PInf]
  show ?thesis
  proof (elim disjE conjE exE)
    assume res: "closestBattery cx ?store ?bs 0 (- 1, PInf) = (- 1, PInf)"
      and none: "\<forall>a \<in> set ?bs. \<not> isDestroyed (?store ! a) \<longrightarrow> \<not> jlt (?d a) PInf"
    have "\<forall>a \<in> set ?bs. isDestroyed (?store ! a)"
      using none fin jlt_PInf by blast
    then have dead: "list_all (\<lambda>a. isDestroyed (?store ! a)) ?bs"
      by (simp add: list_all_iff)
    have "handleCanvasClick button cx cy isGravity w = w"
      using res by (simp add: handleCanvasClick_def Let_def)
    with dead show ?thesis by simp
  next
    fix k
    assume k: "k < length ?bs"
      and res: "closestBattery cx ?store ?bs 0 (- 1, PInf) = (0 + int k, ?d (?bs ! k))"
      and alive: "\<not> isDestroyed (?store ! (?bs ! k))"
      and min: "\<forall>j < length ?bs. \<not> isDestroyed (?store ! (?bs ! j)) \<longrightarrow> jle (?d (?bs ! k)) (?d (?bs ! j))"
      and first: "\<forall>j < k. \<not> isDestroyed (?store ! (?bs ! j)) \<longrightarrow> jlt (?d (?bs ! k)) (?d (?bs ! j))"
    have "?bs ! k \<in> set ?bs" using k by simp
    then have some: "\<not> list_all (\<lambda>a. isDestroyed (?store ! a)) ?bs"
      using alive by (auto simp add: list_all_iff)
    have click: "handleCanvasClick button cx cy isGravity w =
             w\<lparr>gameState := (gameState w)
               \<lparr>playerMissiles := playerMissiles (gameState w) @
                  (if isGravity then
                     [\<lparr>pos = pos (?store ! (?bs ! k)), start = pos (?store ! (?bs ! k)),
                        target = \<lparr>x = cx, y = cy\<rparr>, progress = Val 0,
                        speed = Val PLAYER_MISSILE_SPEED, originBatteryIndex = int k,
                        isGravityBomb = Some True\<rparr>]
                   else
                     [\<lparr>pos = pos (?store ! (?bs ! k)), start = pos (?store ! (?bs ! k)),
                        target = \<lparr>x = jadd cx (Val (- 25)), y = cy\<rparr>, progress = Val 0,
                        speed = Val PLAYER_MISSILE_SPEED, originBatteryIndex = int k,
                        isGravityBomb = Some False\<rparr>,
                      \<lparr>pos = pos (?store ! (?bs ! k)), start = pos (?store ! (?bs ! k)),
                        target = \<lparr>x = jadd cx (Val 0), y = cy\<rparr>, progress = Val 0,
                        speed = Val PLAYER_MISSILE_SPEED, originBatteryIndex = int k,
                        isGravityBomb = Some False\<rparr>,
                      \<lparr>pos = pos (?store ! (?bs ! k)), start = pos (?store ! (?bs ! k)),
                        target = \<lparr>x = jadd cx (Val 25), y = cy\<rparr>, progress = Val 0,
                        speed = Val PLAYER_MISSILE_SPEED, originBatteryIndex = int k,
                        isGravityBomb = Some False\<rparr>])\<rparr>\<rparr>"
      using playing fire res by (simp add: handleCanvasClick_def newMissile_def Let_def)
    from k alive min first click have "\<exists>k < length ?bs.
           \<not> isDestroyed (?store ! (?bs ! k)) \<and>
           (\<forall>j < length ?bs. \<not> isDestroyed (?store ! (?bs ! j)) \<longrightarrow> jle (?d (?bs ! k)) (?d (?bs ! j))) \<and>
           (\<forall>j < k. \<not> isDestroyed (?store ! (?bs ! j)) \<longrightarrow> jlt (?d (?bs ! k)) (?d (?bs ! j))) \<and>
           handleCanvasClick button cx cy isGravity w =
             w\<lparr>gameState := (gameState w)
               \<lparr>playerMissiles := playerMissiles (gameState w) @
                  (if isGravity then
                     [\<lparr>pos = pos (?store ! (?bs ! k)), start = pos (?store ! (?bs ! k)),
                        target = \<lparr>x = cx, y = cy\<rparr>, progress = Val 0,
                        speed = Val PLAYER_MISSILE_SPEED, originBatteryIndex = int k,
                        isGravityBomb = Some True\<rparr>]
                   else
                     [\<lparr>pos = pos (?store ! (?bs ! k)), start = pos (?store ! (?bs ! k)),
                        target = \<lparr>x = jadd cx (Val (- 25)), y = cy\<rparr>, progress = Val 0,
                        speed = Val PLAYER_MISSILE_SPEED, originBatteryIndex = int k,
                        isGravityBomb = Some False\<rparr>,
                      \<lparr>pos = pos (?store ! (?bs ! k)), start = pos (?store ! (?bs ! k)),
                        target = \<lparr>x = jadd cx (Val 0), y = cy\<rparr>, progress = Val 0,
                        speed = Val PLAYER_MISSILE_SPEED, originBatteryIndex = int k,
                        isGravityBomb = Some False\<rparr>,
                      \<lparr>pos = pos (?store ! (?bs ! k)), start = pos (?store ! (?bs ! k)),
                        target = \<lparr>x = jadd cx (Val 25), y = cy\<rparr>, progress = Val 0,
                        speed = Val PLAYER_MISSILE_SPEED, originBatteryIndex = int k,
                        isGravityBomb = Some False\<rparr>])\<rparr>\<rparr>"
      by blast
    with some show ?thesis by simp
  qed
qed

lemma click_examples:
  "handleCanvasClick (Some 0) (Val 100) (Val 200) False woundedWorld =
     exampleWorld PLAYING 0 (allUp 6) [True, False, False] []
       [firedMissile 400 570 1 75 200 False,
        firedMissile 400 570 1 100 200 False,
        firedMissile 400 570 1 125 200 False] []"
  "handleCanvasClick (Some 2) (Val 700) (Val 200) True woundedWorld =
     exampleWorld PLAYING 0 (allUp 6) [True, False, False] []
       [firedMissile 760 570 2 700 200 True] []"
  "handleCanvasClick (Some 0) (Val 100) (Val 200) False
      (exampleWorld PLAYING 0 (allUp 6) (allDown 3) [] [] []) =
     exampleWorld PLAYING 0 (allUp 6) (allDown 3) [] [] []"
  by (simp_all add: woundedWorld_def handleCanvasClick_def newMissile_def firedMissile_def
      example_defs init_defs Let_def num_defs
      constants_defs upt_rec)

theorem handleCanvasClick_fires_witness:
  "status (gameState woundedWorld) = PLAYING \<and>
   isFinite (Val 100) \<and>
   list_all (\<lambda>a. isFinite (x (pos (batteryStore woundedWorld ! a)))) (batteries (gameState woundedWorld)) \<and>
   \<not> list_all (\<lambda>a. isDestroyed (batteryStore woundedWorld ! a)) (batteries (gameState woundedWorld)) \<and>
   handleCanvasClick (Some 0) (Val 100) (Val 200) False woundedWorld =
     exampleWorld PLAYING 0 (allUp 6) [True, False, False] []
       [firedMissile 400 570 1 75 200 False,
        firedMissile 400 570 1 100 200 False,
        firedMissile 400 570 1 125 200 False] [] \<and>
   handleCanvasClick (Some 2) (Val 700) (Val 200) True woundedWorld =
     exampleWorld PLAYING 0 (allUp 6) [True, False, False] []
       [firedMissile 760 570 2 700 200 True] [] \<and>
   list_all (\<lambda>a. isDestroyed (batteryStore (exampleWorld PLAYING 0 (allUp 6) (allDown 3) [] [] []) ! a))
     (batteries (gameState (exampleWorld PLAYING 0 (allUp 6) (allDown 3) [] [] []))) \<and>
   handleCanvasClick (Some 0) (Val 100) (Val 200) False
      (exampleWorld PLAYING 0 (allUp 6) (allDown 3) [] [] []) =
     exampleWorld PLAYING 0 (allUp 6) (allDown 3) [] [] []"
proof -
  have playing: "status (gameState woundedWorld) = PLAYING"
    by (simp add: woundedWorld_def)
  have fire: "\<not> (Some (0::nat) = Some 2 \<and> \<not> False)" by simp
  have fin_click: "isFinite (Val 100)" by simp
  have fin_batteries: "\<forall>a \<in> set (batteries (gameState woundedWorld)).
      isFinite (x (pos (batteryStore woundedWorld ! a)))"
    by (simp add: woundedWorld_def example_defs init_defs constants_defs upt_rec)
  have alive: "\<not> list_all (\<lambda>a. isDestroyed (batteryStore woundedWorld ! a))
      (batteries (gameState woundedWorld))"
    by (simp add: woundedWorld_def example_defs init_defs constants_defs upt_rec)
  have dead: "list_all (\<lambda>a. isDestroyed (batteryStore (exampleWorld PLAYING 0 (allUp 6) (allDown 3) [] [] []) ! a))
     (batteries (gameState (exampleWorld PLAYING 0 (allUp 6) (allDown 3) [] [] [])))"
    by (simp add: example_defs init_defs constants_defs upt_rec)
  from handleCanvasClick_fires [OF playing fire fin_click fin_batteries, of "Val 200"] alive
  have "\<exists>k < length (batteries (gameState woundedWorld)).
      \<not> isDestroyed (batteryStore woundedWorld ! (batteries (gameState woundedWorld) ! k))"
    by blast
  with playing fin_click fin_batteries alive dead click_examples show ?thesis
    by (simp add: list_all_iff)
qed

subsection \<open>The runs\<close>

lemmas run_defs = eval_nat_numeral spawnAt_def example_defs eval_defs

lemma over_run:
  "overRun = exampleWorld PLAYING 0 (allUp 6) (allUp 3) [] []
     (map (\<lambda>(gx, gy). (exampleExplosion gx gy 306 300)\<lparr>isExpanding := False\<rparr>) megaGrid)"
  unfolding overRun_def
  by (simp add: run_defs triggerMegaExplosion_def megaExplosion_def megaGrid_def gridCoords.simps)

lemma lost_run:
  "lostRun = exampleWorld LOST 0 (allUp 6) (allDown 3) [] []
     [exampleExplosion 760 570 3.3 55, exampleExplosion 400 570 3.3 55, exampleExplosion 40 570 3.3 55]"
  unfolding lostRun_def
  by (simp add: run_defs)

lemma nan_run:
  "nanRun = exampleWorld PLAYING 20 (allUp 6) (allUp 3) [] []
     [exampleExplosion 120 6.38 6.6 110,
      \<lparr>pos = \<lparr>x = NaN, y = NaN\<rparr>, radius = Val 0, maxRadius = Val 44, life = Val 1,
       isExpanding = True\<rparr>]"
  unfolding nanRun_def
  by (simp add: run_defs handleCanvasClick_def newMissile_def distance_vertical)


lemma reachable_funpow: "reachable w \<Longrightarrow> reachable ((update rnd ^^ n) w)"
  by (induction n) (simp_all add: reach_update)

lemma reachable_started: "reachable (startGame initialWorld)"
  by (rule reach_start [OF reach_init]) (simp add: initialWorld_def INITIAL_STATE_def)

lemma reachable_overRun: "reachable overRun"
  unfolding overRun_def
  by (intro reachable_funpow reach_mega reachable_started)

lemma reachable_lostRun: "reachable lostRun"
  unfolding lostRun_def
  by (intro reachable_funpow reach_update reachable_started)

lemma reachable_nanRun: "reachable nanRun"
  unfolding nanRun_def
  by (intro reachable_funpow reach_click reach_update reachable_started)


subsection \<open>C5: the kill effect\<close>








subsection \<open>C1: the pull at distance zero\<close>

text \<open>
  Claim C1 fails on the code, which has no guard for \<open>dist == 0\<close>: a rocket at the centre of
  a gravity explosion is inside the pull range, \<open>dx / dist\<close> is \<open>0 / 0\<close>, and both fields of
  its position become NaN. The rocket is killed in the same iteration and the explosion
  pushed for it carries the NaN position into the next state. \<open>nanRun\<close> reaches such a
  state from the first render: in its last tick the rocket just spawned stands at
  \<open>(120, 6.38)\<close>, the centre of the explosion of the gravity bomb that lands in that tick.
\<close>

theorem gravity_pull_at_centre:
  "reachable nanRun \<and>
   nanRun = exampleWorld PLAYING 20 (allUp 6) (allUp 3) [] []
     [exampleExplosion 120 6.38 6.6 110,
      \<lparr>pos = \<lparr>x = NaN, y = NaN\<rparr>, radius = Val 0, maxRadius = Val 44, life = Val 1,
       isExpanding = True\<rparr>] \<and>
   pos (exampleRocket 120 580 0.011) = \<lparr>x = Val 120, y = Val 6.38\<rparr> \<and>
   distance (pos (exampleRocket 120 580 0.011)) (pos (exampleExplosion 120 6.38 6.6 110)) = Val 0 \<and>
   pos (pull (exampleExplosion 120 6.38 6.6 110) (exampleRocket 120 580 0.011)) =
     \<lparr>x = NaN, y = NaN\<rparr>"
proof -
  have "pos (exampleRocket 120 580 0.011) = \<lparr>x = Val 120, y = Val 6.38\<rparr>"
    "distance (pos (exampleRocket 120 580 0.011)) (pos (exampleExplosion 120 6.38 6.6 110)) = Val 0"
    "pos (pull (exampleExplosion 120 6.38 6.6 110) (exampleRocket 120 580 0.011)) =
     \<lparr>x = NaN, y = NaN\<rparr>"
    by (simp_all add: example_defs pull_def Let_def num_defs distance_vertical)
  with reachable_nanRun nan_run show ?thesis by blast
qed

subsection \<open>C4: the radius of an explosion\<close>

lemma explosionInv_new: "0 < m \<Longrightarrow> explosionInv (newExplosion p m)"
  unfolding explosionInv_def newExplosion_def
  by (auto intro: exI [of _ "0::nat"])

lemma explosionInv_mega: "explosionInv (megaExplosion gx gy)"
  unfolding explosionInv_def megaExplosion_def
  by (auto intro: exI [of _ "0::nat"])

lemma growth_bound:
  assumes "0 < m" "real k * (EXPLOSION_GROWTH_SPEED * m) < m"
  shows "real (Suc k) * (EXPLOSION_GROWTH_SPEED * m) \<le> 1.02 * m"
proof -
  have "(real k * EXPLOSION_GROWTH_SPEED) * m < 1 * m"
    using assms(2) by (simp add: mult.assoc)
  then have "real k * EXPLOSION_GROWTH_SPEED < 1"
    using assms(1) by (simp only: mult_less_cancel_right_pos)
  then have "real k < 17"
    by (simp add: EXPLOSION_GROWTH_SPEED_def)
  then have "k < 17" by simp
  then have "real (Suc k) \<le> 17" by simp
  then have "real (Suc k) * (EXPLOSION_GROWTH_SPEED * m) \<le> 17 * (EXPLOSION_GROWTH_SPEED * m)"
    using assms(1) by (intro mult_right_mono) (simp_all add: EXPLOSION_GROWTH_SPEED_def)
  then show ?thesis by (simp add: EXPLOSION_GROWTH_SPEED_def)
qed

lemma explosionInv_step:
  assumes "explosionInv e" "stepExplosion e = Some e'"
  shows "explosionInv e'"
proof -
  from assms(1) obtain r m where e: "radius e = Val r" "maxRadius e = Val m" "0 < m" "0 \<le> r"
    "r \<le> 1.02 * m" and ex: "isExpanding e \<Longrightarrow> r < m \<and> (\<exists>k::nat. r = real k * (EXPLOSION_GROWTH_SPEED * m))"
    unfolding explosionInv_def by blast
  show ?thesis
  proof (cases "isExpanding e")
    case True
    from ex [OF True] obtain k :: nat where k: "r = real k * (EXPLOSION_GROWTH_SPEED * m)" and lt: "r < m"
      by blast
    have e': "e' = e\<lparr>radius := Val (r + EXPLOSION_GROWTH_SPEED * m),
                      isExpanding := r + EXPLOSION_GROWTH_SPEED * m < m\<rparr>"
      using assms(2) True e by (auto simp add: stepExplosion_def Let_def jge_def not_le)
    have next_k: "r + EXPLOSION_GROWTH_SPEED * m = real (Suc k) * (EXPLOSION_GROWTH_SPEED * m)"
      using k by (simp add: algebra_simps)
    have up: "r + EXPLOSION_GROWTH_SPEED * m \<le> 1.02 * m"
      using growth_bound [OF e(3), of k] lt k next_k by simp
    have pos: "0 \<le> r + EXPLOSION_GROWTH_SPEED * m"
      using e by (simp add: EXPLOSION_GROWTH_SPEED_def)
    have f: "radius e' = Val (r + EXPLOSION_GROWTH_SPEED * m)" "maxRadius e' = Val m"
      "isExpanding e' = (r + EXPLOSION_GROWTH_SPEED * m < m)"
      by (simp_all add: e' e)
    have "isExpanding e' \<longrightarrow> r + EXPLOSION_GROWTH_SPEED * m < m \<and>
        (\<exists>k::nat. r + EXPLOSION_GROWTH_SPEED * m = real k * (EXPLOSION_GROWTH_SPEED * m))"
      using f(3) next_k by blast
    with f(1,2) e(3) pos up show ?thesis
      unfolding explosionInv_def by blast
  next
    case False
    have "\<not> r - EXPLOSION_DECAY_SPEED * m \<le> 0 \<and> e' = e\<lparr>radius := Val (r - EXPLOSION_DECAY_SPEED * m)\<rparr>"
      using assms(2) False e by (auto simp add: stepExplosion_def Let_def jsub_def split: if_splits)
    moreover have "r - EXPLOSION_DECAY_SPEED * m \<le> r"
      using e by (simp add: EXPLOSION_DECAY_SPEED_def)
    ultimately show ?thesis
      unfolding explosionInv_def using e False by auto
  qed
qed

lemma map_filter_set: "e' \<in> set (List.map_filter f es) \<Longrightarrow> \<exists>e \<in> set es. f e = Some e'"
  by (auto simp add: List.map_filter_def)

lemma explosionInv_update:
  assumes inv: "\<forall>e \<in> set (explosions (gameState w)). explosionInv e"
  shows "\<forall>e \<in> set (explosions (gameState (update rnd w))). explosionInv e"
proof (cases "status (gameState w) = PLAYING")
  case False
  then show ?thesis using inv by (simp add: update_def Let_def)
next
  case True
  let ?flown = "map advance (spawnRockets rnd w)"
  let ?es3 = "explosions (gameState w) @
            map (\<lambda>r. newExplosion (target r) EXPLOSION_MAX_RADIUS)
              (rev (filter (\<lambda>r. jge (progress r) (Val 1)) ?flown)) @
            map (\<lambda>m. newExplosion (target m)
                   (if isGravityBomb m = Some True then EXPLOSION_MAX_RADIUS * 2 else EXPLOSION_MAX_RADIUS))
              (rev (filter (\<lambda>m. jge (progress m) (Val 1)) (map advance (playerMissiles (gameState w)))))"
  let ?rs2 = "filter (\<lambda>r. \<not> jge (progress r) (Val 1)) ?flown"
  obtain es4 rs4 sc4 pushed
    where ue: "updateExplosions ?es3 (?rs2, score (gameState w), []) = (es4, rs4, sc4, pushed)"
    using prod_cases4 by blast
  have es: "explosions (gameState (update rnd w)) = es4 @ pushed"
    unfolding update_eq [OF True ue] by simp
  from updateExplosions_props [OF ue]
  have es4: "es4 = List.map_filter stepExplosion ?es3"
    and new: "\<forall>e \<in> set pushed.
        radius e = Val 0 \<and> maxRadius e = Val (EXPLOSION_MAX_RADIUS * 0.8) \<and> isExpanding e"
    by simp_all
  have inv3: "\<forall>e \<in> set ?es3. explosionInv e"
    using inv by (auto simp add: explosionInv_new EXPLOSION_MAX_RADIUS_def)
  have "\<forall>e \<in> set es4. explosionInv e"
  proof
    fix e' assume "e' \<in> set es4"
    then have "\<exists>e \<in> set ?es3. stepExplosion e = Some e'"
      unfolding es4 by (rule map_filter_set)
    then obtain e where "e \<in> set ?es3" "stepExplosion e = Some e'" by (rule bexE)
    with inv3 show "explosionInv e'" using explosionInv_step by blast
  qed
  moreover have "\<forall>e \<in> set pushed. explosionInv e"
  proof
    fix e assume "e \<in> set pushed"
    with new have "radius e = Val 0" "maxRadius e = Val (EXPLOSION_MAX_RADIUS * 0.8)" "isExpanding e"
      by blast+
    then show "explosionInv e"
      unfolding explosionInv_def by (auto simp add: EXPLOSION_MAX_RADIUS_def intro: exI [of _ "0::nat"])
  qed
  ultimately show ?thesis unfolding es by auto
qed

lemma explosionInv_reachable:
  "reachable w \<Longrightarrow> \<forall>e \<in> set (explosions (gameState w)). explosionInv e"
proof (induction rule: reachable.induct)
  case reach_init
  show ?case by (simp add: initialWorld_def INITIAL_STATE_def)
next
  case (reach_start w)
  show ?case by (simp add: startGame_def INITIAL_STATE_def)
next
  case (reach_next w)
  show ?case by (simp add: nextLevel_def Let_def)
next
  case (reach_click w button cx cy isGravity)
  then show ?case by (simp add: handleCanvasClick_def Let_def)
next
  case (reach_mega w)
  then show ?case by (auto simp add: triggerMegaExplosion_def Let_def explosionInv_mega)
next
  case (reach_update w rnd)
  from reach_update.IH show ?case by (rule explosionInv_update)
qed

text \<open>
  Claim C4 as stated fails: the radius passes the maximal radius in the last step of the
  expansion. After the area clear and 17 ticks every explosion of the grid has radius
  306 and maximal radius 300.
\<close>

theorem explosion_radius_counterexample:
  "reachable overRun \<and> explosions (gameState overRun) \<noteq> [] \<and>
   list_all (\<lambda>e. radius e = Val 306 \<and> maxRadius e = Val 300 \<and> \<not> jle (radius e) (maxRadius e))
     (explosions (gameState overRun))"
  using reachable_overRun
  by (simp add: over_run) (simp add: exampleWorld_def exampleExplosion_def megaGrid_def INITIAL_STATE_def)

lemma update_explosions:
  assumes "status (gameState w) = PLAYING"
  shows "\<exists>new pushed.
      explosions (gameState (update rnd w)) =
        List.map_filter stepExplosion (explosions (gameState w) @ new) @ pushed \<and>
      list_all (\<lambda>e. radius e = Val 0 \<and> isExpanding e) (new @ pushed)"
proof -
  let ?flown = "map advance (spawnRockets rnd w)"
  let ?new = "map (\<lambda>r. newExplosion (target r) EXPLOSION_MAX_RADIUS)
              (rev (filter (\<lambda>r. jge (progress r) (Val 1)) ?flown)) @
            map (\<lambda>m. newExplosion (target m)
                   (if isGravityBomb m = Some True then EXPLOSION_MAX_RADIUS * 2 else EXPLOSION_MAX_RADIUS))
              (rev (filter (\<lambda>m. jge (progress m) (Val 1)) (map advance (playerMissiles (gameState w)))))"
  let ?rs2 = "filter (\<lambda>r. \<not> jge (progress r) (Val 1)) ?flown"
  obtain es4 rs4 sc4 pushed
    where ue: "updateExplosions (explosions (gameState w) @ ?new) (?rs2, score (gameState w), []) =
        (es4, rs4, sc4, pushed)"
    using prod_cases4 by blast
  have es: "explosions (gameState (update rnd w)) = es4 @ pushed"
    unfolding update_eq [OF assms ue] by simp
  from updateExplosions_props [OF ue]
  have es4: "es4 = List.map_filter stepExplosion (explosions (gameState w) @ ?new)"
    and new: "\<forall>e \<in> set pushed.
        radius e = Val 0 \<and> maxRadius e = Val (EXPLOSION_MAX_RADIUS * 0.8) \<and> isExpanding e"
    by simp_all
  have "list_all (\<lambda>e. radius e = Val 0 \<and> isExpanding e) ?new"
    by (auto simp add: list_all_iff newExplosion_def)
  moreover have "list_all (\<lambda>e. radius e = Val 0 \<and> isExpanding e) pushed"
    using new by (simp add: list_all_iff)
  ultimately have "list_all (\<lambda>e. radius e = Val 0 \<and> isExpanding e) (?new @ pushed)"
    by simp
  with es es4 show ?thesis by blast
qed

text \<open>
  Claim C4, amended. In every reachable world the radius of every explosion lies in
  \<open>[0, 1.02 * maxRadius]\<close>, and below \<open>maxRadius\<close> while the explosion expands. A tick of a
  \<open>PLAYING\<close> world steps every explosion of the state and every explosion created by an
  impact in that tick once, and appends the explosions pushed for killed rockets; all
  new explosions start expanding at radius 0. One step of an expanding explosion adds
  \<open>EXPLOSION_GROWTH_SPEED * maxRadius\<close> to the radius and switches to contraction once
  the new radius is at least \<open>maxRadius\<close>; one step of a contracting explosion subtracts
  \<open>EXPLOSION_DECAY_SPEED * maxRadius\<close> and removes the explosion in that tick when the new
  radius is at most 0, so that it is absent from the next state.
\<close>

theorem explosion_radius_bounds:
  "(reachable w \<longrightarrow>
      (\<forall>e \<in> set (explosions (gameState w)).
         \<exists>r m. radius e = Val r \<and> maxRadius e = Val m \<and> 0 \<le> r \<and> r \<le> 1.02 * m \<and>
           (isExpanding e \<longrightarrow> r < m))) \<and>
   (status (gameState w) = PLAYING \<longrightarrow>
      (\<exists>new pushed.
         explosions (gameState (update rnd w)) =
           List.map_filter stepExplosion (explosions (gameState w) @ new) @ pushed \<and>
         list_all (\<lambda>e. radius e = Val 0 \<and> isExpanding e) (new @ pushed))) \<and>
   (radius e = Val r \<and> maxRadius e = Val m \<longrightarrow>
      stepExplosion e =
        (if isExpanding e then
           Some (e\<lparr>radius := Val (r + EXPLOSION_GROWTH_SPEED * m),
                   isExpanding := r + EXPLOSION_GROWTH_SPEED * m < m\<rparr>)
         else if r - EXPLOSION_DECAY_SPEED * m \<le> 0 then None
         else Some (e\<lparr>radius := Val (r - EXPLOSION_DECAY_SPEED * m)\<rparr>)))"
proof (intro conjI impI)
  assume "reachable w"
  then have "\<forall>e \<in> set (explosions (gameState w)). explosionInv e"
    by (rule explosionInv_reachable)
  then show "\<forall>e \<in> set (explosions (gameState w)).
         \<exists>r m. radius e = Val r \<and> maxRadius e = Val m \<and> 0 \<le> r \<and> r \<le> 1.02 * m \<and>
           (isExpanding e \<longrightarrow> r < m)"
    unfolding explosionInv_def by blast
next
  assume "status (gameState w) = PLAYING"
  then show "\<exists>new pushed.
         explosions (gameState (update rnd w)) =
           List.map_filter stepExplosion (explosions (gameState w) @ new) @ pushed \<and>
         list_all (\<lambda>e. radius e = Val 0 \<and> isExpanding e) (new @ pushed)"
    by (rule update_explosions)
next
  assume "radius e = Val r \<and> maxRadius e = Val m"
  then show "stepExplosion e =
        (if isExpanding e then
           Some (e\<lparr>radius := Val (r + EXPLOSION_GROWTH_SPEED * m),
                   isExpanding := r + EXPLOSION_GROWTH_SPEED * m < m\<rparr>)
         else if r - EXPLOSION_DECAY_SPEED * m \<le> 0 then None
         else Some (e\<lparr>radius := Val (r - EXPLOSION_DECAY_SPEED * m)\<rparr>))"
    by (simp add: stepExplosion_def Let_def jge_def jsub_def not_le)
qed

lemma fading_example:
  "update noSpawn fadingWorld =
     exampleWorld PLAYING 0 (allUp 6) (allUp 3) [] []
       [(exampleExplosion 300 200 56.1 55)\<lparr>isExpanding := False\<rparr>]"
  by (simp add: fadingWorld_def example_defs update_def spawnRockets_def stepExplosion_def Let_def
      num_defs constants_defs init_defs upt_rec)

theorem explosion_radius_bounds_witness:
  "reachable overRun \<and>
   hd (explosions (gameState overRun)) = (exampleExplosion 100 100 306 300)\<lparr>isExpanding := False\<rparr> \<and>
   (306::real) \<le> 1.02 * 300 \<and>
   status (gameState fadingWorld) = PLAYING \<and>
   update noSpawn fadingWorld =
     exampleWorld PLAYING 0 (allUp 6) (allUp 3) [] []
       [(exampleExplosion 300 200 56.1 55)\<lparr>isExpanding := False\<rparr>] \<and>
   stepExplosion (exampleExplosion 300 200 52.8 55) =
     Some ((exampleExplosion 300 200 56.1 55)\<lparr>isExpanding := False\<rparr>) \<and>
   stepExplosion ((exampleExplosion 500 250 0.825 55)\<lparr>isExpanding := False\<rparr>) = None"
proof -
  have hd: "hd (explosions (gameState overRun)) =
      (exampleExplosion 100 100 306 300)\<lparr>isExpanding := False\<rparr>"
    by (simp add: over_run) (simp add: exampleWorld_def megaGrid_def INITIAL_STATE_def)
  have playing: "status (gameState fadingWorld) = PLAYING"
    by (simp add: fadingWorld_def)
  have rm: "radius (exampleExplosion 300 200 52.8 55) = Val 52.8 \<and>
      maxRadius (exampleExplosion 300 200 52.8 55) = Val 55"
    "radius ((exampleExplosion 500 250 0.825 55)\<lparr>isExpanding := False\<rparr>) = Val 0.825 \<and>
      maxRadius ((exampleExplosion 500 250 0.825 55)\<lparr>isExpanding := False\<rparr>) = Val 55"
    by (simp_all add: exampleExplosion_def)
  from explosion_radius_bounds [of overRun noSpawn "exampleExplosion 300 200 52.8 55" "52.8" 55] rm(1)
  have 1: "stepExplosion (exampleExplosion 300 200 52.8 55) =
     Some ((exampleExplosion 300 200 56.1 55)\<lparr>isExpanding := False\<rparr>)"
    by (simp add: exampleExplosion_def constants_defs)
  from explosion_radius_bounds [of fadingWorld noSpawn
      "(exampleExplosion 500 250 0.825 55)\<lparr>isExpanding := False\<rparr>" "0.825" 55] rm(2)
  have 2: "stepExplosion ((exampleExplosion 500 250 0.825 55)\<lparr>isExpanding := False\<rparr>) = None"
    by (simp add: exampleExplosion_def constants_defs)
  from reachable_overRun hd playing fading_example 1 2 show ?thesis by simp
qed

subsection \<open>C10: the start of a game\<close>

text \<open>
  Claim C10 fails on the code for a restart. \<open>startGame\<close> installs \<open>INITIAL_STATE\<close> with
  status \<open>PLAYING\<close>: level 50, score 0, no rockets, missiles or explosions, and the city and
  battery arrays of \<open>INITIAL_STATE\<close>. The objects in these arrays are the ones the ticks of
  the game before destroyed in place, so after a game lost in the first level (\<open>lostRun\<close>)
  the restarted world has every battery destroyed and its first tick is \<open>LOST\<close> again. The
  first start, from the first render, has every city and battery alive.
\<close>

theorem restart_keeps_destroyed_batteries:
  "reachable lostRun \<and>
   lostRun = exampleWorld LOST 0 (allUp 6) (allDown 3) [] []
     [exampleExplosion 760 570 3.3 55, exampleExplosion 400 570 3.3 55, exampleExplosion 40 570 3.3 55] \<and>
   reachable (startGame lostRun) \<and>
   startGame lostRun = exampleWorld PLAYING 0 (allUp 6) (allDown 3) [] [] [] \<and>
   update noSpawn (startGame lostRun) = exampleWorld LOST 0 (allUp 6) (allDown 3) [] [] [] \<and>
   startGame initialWorld = exampleWorld PLAYING 0 (allUp 6) (allUp 3) [] [] []"
proof -
  have lost: "status (gameState lostRun) = START \<or> status (gameState lostRun) = LOST"
    by (simp add: lost_run)
  have again: "reachable (startGame lostRun)"
    using reachable_lostRun lost by (rule reach_start)
  have restart: "startGame lostRun = exampleWorld PLAYING 0 (allUp 6) (allDown 3) [] [] []"
    by (simp add: lost_run) (simp add: startGame_def exampleWorld_def INITIAL_STATE_def)
  have tick: "update noSpawn (startGame lostRun) = exampleWorld LOST 0 (allUp 6) (allDown 3) [] [] []"
    unfolding restart
    by (simp add: example_defs update_def spawnRockets_def Let_def num_defs constants_defs init_defs upt_rec)
  have fresh: "startGame initialWorld = exampleWorld PLAYING 0 (allUp 6) (allUp 3) [] [] []"
    by (simp add: example_defs init_defs constants_defs upt_rec)
  from reachable_lostRun lost_run again restart tick fresh show ?thesis by blast
qed

end
